theory Spec2Isabelle
  imports Complex_Main "HOL-Library.Sublist"
begin

section \<open>Strings\<close>

text \<open>
  A Python \<open>str\<close> is a sequence of Unicode code points, and \<open>len\<close> counts code points.
  The model is the list of the code points; \<open>py\<close> turns an ASCII literal into it.
\<close>

type_synonym str = "nat list"

definition py :: "string \<Rightarrow> str" where
  "py s = map of_char s"

text \<open>
  \<open>str.strip()\<close> without argument removes leading and trailing whitespace. The code points
  below are the ones CPython treats as whitespace (\<open>str.isspace\<close>): U+0009..U+000D,
  U+001C..U+001F, U+0020, U+0085, U+00A0, U+1680, U+2000..U+200A, U+2028, U+2029, U+202F,
  U+205F, U+3000.
\<close>

definition isspace :: "nat \<Rightarrow> bool" where
  "isspace c \<longleftrightarrow> c \<in> set [9, 10, 11, 12, 13, 28, 29, 30, 31, 32, 133, 160, 5760,
     8192, 8193, 8194, 8195, 8196, 8197, 8198, 8199, 8200, 8201, 8202,
     8232, 8233, 8239, 8287, 12288]"

definition strip :: "str \<Rightarrow> str" where
  "strip s = rev (dropWhile isspace (rev (dropWhile isspace s)))"

text \<open>\<open>sep.join(xs)\<close>: the elements of \<open>xs\<close> with \<open>sep\<close> between neighbours.\<close>

fun join :: "str \<Rightarrow> str list \<Rightarrow> str" where
  "join sep [] = []"
| "join sep [x] = x"
| "join sep (x # y # ys) = x @ sep @ join sep (y # ys)"

text \<open>Truthiness of a value that is \<open>None\<close> or a \<open>str\<close>: false for \<open>None\<close> and for \<open>""\<close>.\<close>

fun truthy :: "str option \<Rightarrow> bool" where
  "truthy None = False"
| "truthy (Some s) = (s \<noteq> [])"

section \<open>The world outside the orchestration core\<close>

text \<open>
  Exceptions that reach the \<open>except Exception\<close> clause of \<open>OCRLLMWorker.run\<close>: the three
  kinds the worker raises itself, and \<open>Raised msg\<close> for whatever a library call raises.
\<close>

datatype exn = ImportError | ValueError | RuntimeError | Raised str

text \<open>The keyword arguments of \<open>GPT4All.generate\<close> (\<open>streaming\<close> is always \<open>False\<close>).\<close>

record gen_params =
  max_tokens :: nat
  temp :: rat
  top_k :: nat
  top_p :: rat

text \<open>
  Everything the core reads from outside itself: whether the three optional modules were
  imported (the globals \<open>easyocr\<close>, \<open>GPT4All\<close>, \<open>cv2\<close> are \<open>None\<close> otherwise), the file
  system, the image loader, the two engine constructors (\<open>None\<close>: constructed, \<open>Some e\<close>:
  raised \<open>e\<close>), the two engine calls, and the two prompt templates. The templates are fixed
  Korean text around one placeholder; \<open>str.format\<close> puts the argument between the text
  before and the text after the placeholder.
\<close>

record world =
  easyocr :: bool
  GPT4All :: bool
  cv2 :: bool
  path_exists :: "str \<Rightarrow> bool"
  imread :: "str \<Rightarrow> bool"
  Reader :: "exn option"
  load_model :: "str \<Rightarrow> exn option"
  readtext :: "str \<Rightarrow> exn + str list"
  generate :: "str \<Rightarrow> gen_params \<Rightarrow> exn + str"
  correction_before :: str
  correction_after :: str
  explanation_before :: str
  explanation_after :: str

definition prompt_template_correction :: "world \<Rightarrow> str \<Rightarrow> str" where
  "prompt_template_correction w text_to_correct =
     correction_before w @ text_to_correct @ correction_after w"

definition prompt_template_explanation :: "world \<Rightarrow> str \<Rightarrow> str" where
  "prompt_template_explanation w document_text =
     explanation_before w @ document_text @ explanation_after w"

section \<open>WorkerSignals and OCRLLMWorker\<close>

text \<open>
  The four signals of \<open>WorkerSignals\<close>. \<open>Progress\<close> and \<open>Result\<close> carry the two arguments
  of the source. The source formats the error message from the task type, the exception
  and the traceback; \<open>Error\<close> carries the task type and the exception instead.
\<close>

datatype signal =
    Progress str int
  | Result str str
  | Error str exn
  | Finished

text \<open>
  The fields of a worker. \<open>stop_event\<close> is the address of its \<open>threading.Event\<close>
  in the store of events kept by the window; \<open>ocr_reader\<close> and \<open>llm_model\<close> say whether a
  preloaded engine instance was passed in (\<open>None\<close> otherwise).
\<close>

record OCRLLMWorker =
  task_type :: str
  image_path :: "str option"
  text_input :: "str option"
  model_name :: str
  stop_event :: nat
  ocr_reader :: bool
  llm_model :: bool

text \<open>
  The body of the \<open>try\<close> block: the signals it emits, in order, and how it ends
  (\<open>None\<close>: by falling through or by \<open>return\<close>; \<open>Some e\<close>: by raising \<open>e\<close>).
\<close>

type_synonym body = "signal list \<times> exn option"

definition raise :: "exn \<Rightarrow> body" where
  "raise e = ([], Some e)"

definition returns :: body where
  "returns = ([], None)"

definition emit :: "signal \<Rightarrow> body \<Rightarrow> body" where
  "emit x b = (x # fst b, snd b)"

text \<open>
  \<open>is_set k\<close> is what the \<open>k\<close>-th call of \<open>self.stop_event.is_set()\<close> in this run returns
  (the flag is set by the controller thread while the worker runs).

  The \<open>ocr_correct\<close> branch is written in three pieces, in the order of the source: the
  checks up to the image test, the recognition stage (comment \<open>1.\<close> of the source, with the
  stop check that follows it) and the correction stage (comment \<open>2.\<close>).

  Before each call of \<open>generate\<close> the source raises \<open>RuntimeError\<close> if
  \<open>self.llm_model\<close> is still false. It never is at that point: either an instance was
  passed in, or the constructor was called just above and returned one (had it raised, the
  run would have ended there). So the model has no branch for it.
\<close>

definition correct_stage :: "world \<Rightarrow> (nat \<Rightarrow> bool) \<Rightarrow> OCRLLMWorker \<Rightarrow> str \<Rightarrow> body" where
  "correct_stage w is_set self ocr_text_internal =
    emit (Progress (task_type self) 55)
     (case (if llm_model self then None else load_model w (model_name self)) of
        Some e \<Rightarrow> raise e
      | None \<Rightarrow>
         if is_set 2 then emit Finished returns
         else
          (case generate w (prompt_template_correction w ocr_text_internal)
                  \<lparr>max_tokens = length ocr_text_internal * 2 + 300,
                   temp = 6 / 10, top_k = 40, top_p = 9 / 10\<rparr> of
             Inl e \<Rightarrow> raise e
           | Inr corrected_text \<Rightarrow>
              emit (Result (py ''corrected_text_result'') (strip corrected_text))
               (emit (Progress (task_type self) 100) returns)))"

definition recognize_stage :: "world \<Rightarrow> (nat \<Rightarrow> bool) \<Rightarrow> OCRLLMWorker \<Rightarrow> str \<Rightarrow> body" where
  "recognize_stage w is_set self p =
    emit (Progress (task_type self) 10)
     (case (if ocr_reader self then None else Reader w) of
        Some e \<Rightarrow> raise e
      | None \<Rightarrow>
         if is_set 0 then emit Finished returns
         else
          (case readtext w p of
             Inl e \<Rightarrow> raise e
           | Inr raw_ocr_results \<Rightarrow>
              emit (Result (py ''ocr_result'') (join [10] raw_ocr_results))
               (emit (Progress (task_type self) 50)
                 (if is_set 1 then emit Finished returns
                  else correct_stage w is_set self (join [10] raw_ocr_results)))))"

definition run_ocr_correct :: "world \<Rightarrow> (nat \<Rightarrow> bool) \<Rightarrow> OCRLLMWorker \<Rightarrow> body" where
  "run_ocr_correct w is_set self =
    (if \<not> easyocr w then raise ImportError
     else if \<not> GPT4All w then raise ImportError
     else if \<not> cv2 w then raise ImportError
     else emit (Progress (task_type self) 5)
      (case image_path self of
         None \<Rightarrow> raise ValueError
       | Some p \<Rightarrow>
          if p = [] \<or> \<not> path_exists w p then raise ValueError
          else if \<not> imread w p then raise ValueError
          else recognize_stage w is_set self p))"

definition run_explain :: "world \<Rightarrow> (nat \<Rightarrow> bool) \<Rightarrow> OCRLLMWorker \<Rightarrow> body" where
  "run_explain w is_set self =
    (if \<not> GPT4All w then raise ImportError
     else emit (Progress (task_type self) 10)
      (case text_input self of
         None \<Rightarrow> raise ValueError
       | Some t \<Rightarrow>
          if t = [] then raise ValueError
          else
           (case (if llm_model self then None else load_model w (model_name self)) of
              Some e \<Rightarrow> raise e
            | None \<Rightarrow>
               if is_set 0 then emit Finished returns
               else
                (case generate w (prompt_template_explanation w t)
                        \<lparr>max_tokens = length t + 500,
                         temp = 7 / 10, top_k = 50, top_p = 95 / 100\<rparr> of
                   Inl e \<Rightarrow> raise e
                 | Inr explanation \<Rightarrow>
                    emit (Result (py ''explanation_result'') (strip explanation))
                     (emit (Progress (task_type self) 100) returns)))))"

definition run_try :: "world \<Rightarrow> (nat \<Rightarrow> bool) \<Rightarrow> OCRLLMWorker \<Rightarrow> body" where
  "run_try w is_set self =
    (if task_type self = py ''ocr_correct'' then run_ocr_correct w is_set self
     else if task_type self = py ''explain'' then run_explain w is_set self
     else returns)"

text \<open>
  \<open>OCRLLMWorker.run\<close>: the \<open>try\<close> block, then the \<open>except\<close> clause when it raised (one
  \<open>Error\<close> signal), then the \<open>finally\<close> clause (one \<open>Finished\<close> signal), which also runs
  when the block ended by \<open>return\<close>.
\<close>

definition run :: "world \<Rightarrow> (nat \<Rightarrow> bool) \<Rightarrow> OCRLLMWorker \<Rightarrow> signal list" where
  "run w is_set self =
    fst (run_try w is_set self) @
    (case snd (run_try w is_set self) of
       None \<Rightarrow> []
     | Some e \<Rightarrow> [Error (task_type self) e]) @
    [Finished]"

text \<open>The percentages of the \<open>Progress\<close> signals of a run, in order.\<close>

fun percents :: "signal list \<Rightarrow> int list" where
  "percents [] = []"
| "percents (Progress t p # es) = p # percents es"
| "percents (e # es) = percents es"

text \<open>
  A run counts as a success when it emitted the result its task type ends with: the
  corrected text of \<open>ocr_correct\<close>, the explanation of \<open>explain\<close>.
\<close>

fun is_final_result :: "signal \<Rightarrow> bool" where
  "is_final_result (Result k d) = (k = py ''corrected_text_result'' \<or> k = py ''explanation_result'')"
| "is_final_result e = False"

definition succeeded :: "signal list \<Rightarrow> bool" where
  "succeeded es = list_ex is_final_result es"

text \<open>
  \<open>result_order seen es\<close> scans \<open>es\<close> and holds when every \<open>corrected_text_result\<close> in it
  comes after an \<open>ocr_result\<close> (\<open>seen\<close>: one was met before \<open>es\<close>).
\<close>

fun result_order :: "bool \<Rightarrow> signal list \<Rightarrow> bool" where
  "result_order seen [] = True"
| "result_order seen (Result k d # es) =
     (if k = py ''ocr_result'' then result_order True es
      else if k = py ''corrected_text_result'' then seen \<and> result_order seen es
      else result_order seen es)"
| "result_order seen (e # es) = result_order seen es"

text \<open>
  Two courses of the stop flag: never set during the run, and set before the run's first
  check.
\<close>

definition never_set :: "nat \<Rightarrow> bool" where
  "never_set k = False"

definition always_set :: "nat \<Rightarrow> bool" where
  "always_set k = True"

text \<open>
  The scenario of the specification: the image \<open>doc.png\<close>, a recognition engine that
  returns the one fragment \<open>Hello wrold\<close> and a generation engine that returns
  \<open>Hello world.\<close>; both engines are preloaded.
\<close>

definition scenario_world :: world where
  "scenario_world =
    \<lparr>easyocr = True, GPT4All = True, cv2 = True,
     path_exists = (\<lambda>p. True), imread = (\<lambda>p. True),
     Reader = None, load_model = (\<lambda>m. None),
     readtext = (\<lambda>p. Inr [py ''Hello wrold'']),
     generate = (\<lambda>prompt params. Inr (py ''Hello world.'')),
     correction_before = [], correction_after = [],
     explanation_before = [], explanation_after = []\<rparr>"

definition scenario_worker :: OCRLLMWorker where
  "scenario_worker =
    \<lparr>task_type = py ''ocr_correct'', image_path = Some (py ''doc.png''), text_input = None,
     model_name = py ''Meta-Llama-3-8B-Instruct.Q4_0.gguf'', stop_event = 0,
     ocr_reader = True, llm_model = True\<rparr>"

text \<open>
  A worker for the \<open>explain\<close> task on the text \<open>Hello world.\<close>.
\<close>

definition explain_worker :: OCRLLMWorker where
  "explain_worker =
    \<lparr>task_type = py ''explain'', image_path = None, text_input = Some (py ''Hello world.''),
     model_name = py ''Meta-Llama-3-8B-Instruct.Q4_0.gguf'', stop_event = 0,
     ocr_reader = True, llm_model = True\<rparr>"

section \<open>ComparisonDialog\<close>

text \<open>
  The Korean placeholders the dialogs show for an empty text, as code points: no OCR
  result, no refined result, no explanation result.
\<close>

definition no_ocr_result :: str where
  "no_ocr_result =
     [79, 67, 82, 32, 44208, 44284, 44032, 32, 50630, 49845, 45768, 45796, 46]"

definition no_refined_result :: str where
  "no_refined_result =
     [76, 76, 77, 32, 51221, 51228, 32, 44208, 44284, 44032, 32, 50630, 49845, 45768, 45796, 46]"

definition no_explanation_result :: str where
  "no_explanation_result =
     [54644, 49444, 32, 44208, 44284, 44032, 32, 50630, 49845, 45768, 45796, 46]"

text \<open>
  The fields of the dialog the orchestrator depends on; \<open>refined_text_edit\<close> is the
  content of the editable text box.
\<close>

record ComparisonDialog =
  dialog_image_path :: "str option"
  ocr_text_content :: str
  refined_text_content :: str
  final_refined_text :: str
  refined_text_edit :: str

definition ComparisonDialog_init :: "str option \<Rightarrow> str \<Rightarrow> str \<Rightarrow> ComparisonDialog" where
  "ComparisonDialog_init path ocr_text refined_text =
    (let refined = (if refined_text \<noteq> [] then refined_text else no_refined_result) in
     \<lparr>dialog_image_path = path,
      ocr_text_content = (if ocr_text \<noteq> [] then ocr_text else no_ocr_result),
      refined_text_content = refined,
      final_refined_text = refined,
      refined_text_edit = refined\<rparr>)"

definition on_accept :: "ComparisonDialog \<Rightarrow> ComparisonDialog" where
  "on_accept d = d\<lparr>final_refined_text := refined_text_edit d\<rparr>"

definition get_accepted_text :: "ComparisonDialog \<Rightarrow> str" where
  "get_accepted_text d = final_refined_text d"

text \<open>
  What the human does with the open dialog: press Redo, press Cancel (or close the
  window), or leave some text in the editable box and press Accept. \<open>dialog_exec\<close> is
  \<open>dialog.exec()\<close>: the code passed to \<open>done\<close> (1 for Redo, 2 for Accept, 0 for
  \<open>reject\<close>) and the dialog as the button's slot left it.
\<close>

datatype review = Redo | Accept str | Cancel

fun dialog_exec :: "ComparisonDialog \<Rightarrow> review \<Rightarrow> int \<times> ComparisonDialog" where
  "dialog_exec d Redo = (1, d)"
| "dialog_exec d (Accept edited) = (2, on_accept (d\<lparr>refined_text_edit := edited\<rparr>))"
| "dialog_exec d Cancel = (0, d)"

section \<open>MainWindow\<close>

text \<open>
  The status line shows fixed Korean messages; each constructor stands for one of them
  (with the value the source formats into it).
\<close>

datatype status =
    Msg_select_or_drop
  | Msg_image_loaded str
  | Msg_busy
  | Msg_task_started str
  | Msg_no_image_selected
  | Msg_no_text_to_explain
  | Msg_ocr_done
  | Msg_correction_done
  | Msg_explanation_done
  | Msg_error str exn
  | Msg_no_image_to_compare
  | Msg_redo_requested
  | Msg_text_accepted
  | Msg_comparison_cancelled
  | Msg_stopping
  | Msg_stopped_resetting
  | Msg_reset_done
  | Msg_reset_select_new_image
  | Msg_task_done

text \<open>The message boxes: four \<open>QMessageBox.critical\<close> and one \<open>QMessageBox.warning\<close>.\<close>

datatype box =
    Critical_EasyOCR
  | Critical_GPT4All
  | Critical_OpenCV
  | Critical_task str exn
  | Warning_no_text

text \<open>
  A modal dialog blocks the slot that opened it inside \<open>exec()\<close>, while Qt's nested
  event loop goes on delivering the queued worker signals to the window's slots. A
  \<open>frame\<close> is a slot suspended that way, with the rest of it still to run when the dialog
  closes: \<open>show_comparison_dialog\<close> in \<open>dialog.exec()\<close>, \<open>show_explanation_dialog\<close> in
  \<open>dialog.exec()\<close> (with the text shown), \<open>handle_worker_error\<close> in its critical box, and
  \<open>show_comparison_dialog\<close> in its warning box. The other message boxes are the last
  action of their slot (only \<open>return\<close> follows), so they are recorded in \<open>message_boxes\<close>
  and need no frame.
\<close>

datatype frame =
    In_comparison ComparisonDialog
  | In_explanation str
  | In_error_box
  | In_no_text_box

text \<open>
  The state of the window. \<open>threadpool\<close> lists the runnables handed to
  \<open>QThreadPool.start\<close>, oldest first. \<open>events\<close> is the store of the
  \<open>threading.Event\<close> objects created so far (the flag of each, addressed by position):
  the window and the worker share the object, so the flag lives in the store and both
  hold its address. \<open>ocr_reader_instance\<close> and \<open>llm_model_instance\<close> say whether the
  engine was preloaded (\<open>None\<close> otherwise). \<open>image_display_label\<close> is the path of the
  pixmap shown, if any. The three buttons are their enabled flags. \<open>modal\<close> is the stack
  of suspended slots, innermost dialog first.
\<close>

record MainWindow =
  current_image_path :: "str option"
  raw_ocr_text :: str
  current_corrected_text :: str
  final_accepted_text_for_explanation :: str
  llm_model_name :: str
  ocr_reader_instance :: bool
  llm_model_instance :: bool
  threadpool :: "OCRLLMWorker list"
  current_worker_runnable :: "OCRLLMWorker option"
  stop_current_worker_event :: "nat option"
  events :: "bool list"
  progress_bar :: int
  status_label :: status
  image_display_label :: "str option"
  analyze_button :: bool
  cancel_task_button :: bool
  select_image_button :: bool
  message_boxes :: "box list"
  modal :: "frame list"

definition update_status_message :: "status \<Rightarrow> MainWindow \<Rightarrow> MainWindow" where
  "update_status_message message s = s\<lparr>status_label := message\<rparr>"

definition show_box :: "box \<Rightarrow> MainWindow \<Rightarrow> MainWindow" where
  "show_box b s = s\<lparr>message_boxes := message_boxes s @ [b]\<rparr>"

text \<open>
  \<open>MainWindow.__init__\<close>: each engine is preloaded when its module is present and its
  constructor does not raise.
\<close>

definition MainWindow_init :: "world \<Rightarrow> MainWindow" where
  "MainWindow_init w =
    \<lparr>current_image_path = None,
     raw_ocr_text = [],
     current_corrected_text = [],
     final_accepted_text_for_explanation = [],
     llm_model_name = py ''Meta-Llama-3-8B-Instruct.Q4_0.gguf'',
     ocr_reader_instance = (easyocr w \<and> Reader w = None),
     llm_model_instance =
       (GPT4All w \<and> load_model w (py ''Meta-Llama-3-8B-Instruct.Q4_0.gguf'') = None),
     threadpool = [],
     current_worker_runnable = None,
     stop_current_worker_event = None,
     events = [],
     progress_bar = 0,
     status_label = Msg_select_or_drop,
     image_display_label = None,
     analyze_button = False,
     cancel_task_button = True,
     select_image_button = True,
     message_boxes = [],
     modal = []\<rparr>"

definition set_buttons_for_task_running_state :: "bool \<Rightarrow> MainWindow \<Rightarrow> MainWindow" where
  "set_buttons_for_task_running_state is_running s =
    s\<lparr>analyze_button := (\<not> is_running \<and> truthy (current_image_path s)),
      cancel_task_button := True,
      select_image_button := (\<not> is_running)\<rparr>"

definition reset_ui_after_task :: "bool \<Rightarrow> MainWindow \<Rightarrow> MainWindow" where
  "reset_ui_after_task full_reset s =
    (let s1 = s\<lparr>progress_bar := 0,
                raw_ocr_text := [],
                current_corrected_text := [],
                final_accepted_text_for_explanation := []\<rparr>;
         s2 = (if full_reset
               then update_status_message Msg_reset_select_new_image
                      (s1\<lparr>current_image_path := None,
                          image_display_label := None,
                          analyze_button := False\<rparr>)
               else update_status_message Msg_task_done
                      (s1\<lparr>analyze_button := truthy (current_image_path s1)\<rparr>))
     in set_buttons_for_task_running_state False s2)"

text \<open>
  \<open>cancel_current_worker_if_running\<close> returns whether it cancelled. It sets the flag of
  the worker's event in the store and forgets the worker and the event at once.
\<close>

definition cancel_current_worker_if_running :: "MainWindow \<Rightarrow> bool \<times> MainWindow" where
  "cancel_current_worker_if_running s =
    (case (current_worker_runnable s, stop_current_worker_event s) of
       (Some wk, Some ev) \<Rightarrow>
         (True,
          set_buttons_for_task_running_state False
            ((update_status_message Msg_stopping s)
               \<lparr>events := (events s)[ev := True],
                current_worker_runnable := None,
                stop_current_worker_event := None\<rparr>)
            \<lparr>progress_bar := 0\<rparr>)
     | _ \<Rightarrow> (False, s))"

definition cancel_or_reset_all_processes :: "MainWindow \<Rightarrow> MainWindow" where
  "cancel_or_reset_all_processes s =
    (case cancel_current_worker_if_running s of
       (True, s1) \<Rightarrow> reset_ui_after_task True (update_status_message Msg_stopped_resetting s1)
     | (False, s1) \<Rightarrow> reset_ui_after_task True (update_status_message Msg_reset_done s1))"

definition load_image_and_prepare_analysis :: "str \<Rightarrow> MainWindow \<Rightarrow> MainWindow" where
  "load_image_and_prepare_analysis path s =
    (let s1 = snd (cancel_current_worker_if_running s) in
     update_status_message (Msg_image_loaded path)
       (s1\<lparr>current_image_path := Some path,
           image_display_label := Some path,
           raw_ocr_text := [],
           current_corrected_text := [],
           final_accepted_text_for_explanation := [],
           progress_bar := 0,
           analyze_button := True\<rparr>))"

text \<open>
  \<open>open_image_file_dialog\<close> gets the path the file dialog returned (\<open>""\<close> when the
  human dismissed it). \<open>dropEvent\<close> gets the path of the dropped file and takes it when
  its lowercased name ends in one of the three extensions; only the ASCII letters matter
  for that test.
\<close>

definition open_image_file_dialog :: "str \<Rightarrow> MainWindow \<Rightarrow> MainWindow" where
  "open_image_file_dialog file_path s =
    (if file_path \<noteq> [] then load_image_and_prepare_analysis file_path s else s)"

definition lower :: "str \<Rightarrow> str" where
  "lower p = map (\<lambda>c. if 65 \<le> c \<and> c \<le> 90 then c + 32 else c) p"

definition dropEvent :: "str \<Rightarrow> MainWindow \<Rightarrow> MainWindow" where
  "dropEvent file_path s =
    (if suffix (py ''.png'') (lower file_path) \<or> suffix (py ''.jpg'') (lower file_path)
        \<or> suffix (py ''.jpeg'') (lower file_path)
     then load_image_and_prepare_analysis file_path s else s)"

text \<open>
  \<open>_start_background_worker(task_type, **kwargs)\<close>; the keyword arguments are
  \<open>image_path\<close> or \<open>text_input\<close>. When the slot \<open>current_worker_runnable\<close> is taken it
  only reports that another task is running. Otherwise it creates a fresh event and a
  worker bound to it, connects the worker's four signals to the window's slots (they
  stay connected from then on: see \<open>deliver\<close>), and hands the worker to the thread pool.
\<close>

definition start_background_worker ::
    "str \<Rightarrow> str option \<Rightarrow> str option \<Rightarrow> MainWindow \<Rightarrow> MainWindow" where
  "start_background_worker task path text s =
    (if current_worker_runnable s \<noteq> None then update_status_message Msg_busy s
     else
      (let ev = length (events s);
           wk = \<lparr>task_type = task, image_path = path, text_input = text,
                 model_name = llm_model_name s, stop_event = ev,
                 ocr_reader = ocr_reader_instance s, llm_model = llm_model_instance s\<rparr>;
           s1 = s\<lparr>progress_bar := 0,
                  events := events s @ [False],
                  stop_current_worker_event := Some ev,
                  current_worker_runnable := Some wk,
                  threadpool := threadpool s @ [wk]\<rparr>
       in update_status_message (Msg_task_started task)
            (set_buttons_for_task_running_state True s1)))"

definition run_ocr_correction_task :: "world \<Rightarrow> MainWindow \<Rightarrow> MainWindow" where
  "run_ocr_correction_task w s =
    (if \<not> truthy (current_image_path s) then update_status_message Msg_no_image_selected s
     else if \<not> ocr_reader_instance s \<and> \<not> easyocr w then show_box Critical_EasyOCR s
     else if \<not> llm_model_instance s \<and> \<not> GPT4All w then show_box Critical_GPT4All s
     else if \<not> cv2 w then show_box Critical_OpenCV s
     else start_background_worker (py ''ocr_correct'') (current_image_path s) None
            (s\<lparr>raw_ocr_text := [], current_corrected_text := []\<rparr>))"

definition run_explanation_task :: "world \<Rightarrow> str \<Rightarrow> MainWindow \<Rightarrow> MainWindow" where
  "run_explanation_task w text_for_explanation s =
    (if text_for_explanation = [] then update_status_message Msg_no_text_to_explain s
     else if \<not> llm_model_instance s \<and> \<not> GPT4All w then show_box Critical_GPT4All s
     else start_background_worker (py ''explain'') None (Some text_for_explanation) s)"

text \<open>
  \<open>show_comparison_dialog\<close> up to \<open>dialog.exec()\<close>, and the rest of it, run when
  \<open>exec\<close> returns (on the state the window has by then).
\<close>

definition show_comparison_dialog :: "MainWindow \<Rightarrow> MainWindow" where
  "show_comparison_dialog s =
    (if \<not> truthy (current_image_path s)
     then reset_ui_after_task True (update_status_message Msg_no_image_to_compare s)
     else s\<lparr>modal := In_comparison (ComparisonDialog_init (current_image_path s)
                         (raw_ocr_text s) (current_corrected_text s)) # modal s\<rparr>)"

definition comparison_dialog_returned ::
    "world \<Rightarrow> ComparisonDialog \<Rightarrow> review \<Rightarrow> MainWindow \<Rightarrow> MainWindow" where
  "comparison_dialog_returned w d r s =
    (case dialog_exec d r of (dialog_result, dialog) \<Rightarrow>
      if dialog_result = 1
      then run_ocr_correction_task w (update_status_message Msg_redo_requested s)
      else if dialog_result = 2
      then
       (let s1 = s\<lparr>final_accepted_text_for_explanation := get_accepted_text dialog\<rparr> in
        if final_accepted_text_for_explanation s1 \<noteq> []
           \<and> strip (final_accepted_text_for_explanation s1) \<noteq> []
        then run_explanation_task w (final_accepted_text_for_explanation s1)
               (update_status_message Msg_text_accepted s1)
        else (show_box Warning_no_text s1)\<lparr>modal := In_no_text_box # modal s1\<rparr>)
      else reset_ui_after_task True (update_status_message Msg_comparison_cancelled s))"

definition no_text_box_returned :: "MainWindow \<Rightarrow> MainWindow" where
  "no_text_box_returned s = reset_ui_after_task False s"

text \<open>
  \<open>show_explanation_dialog\<close> up to \<open>dialog.exec()\<close>; when it returns, the rest of it
  and the rest of its caller \<open>handle_worker_result\<close>.
\<close>

definition show_explanation_dialog :: "str \<Rightarrow> MainWindow \<Rightarrow> MainWindow" where
  "show_explanation_dialog explanation_text s =
    s\<lparr>modal := In_explanation (if explanation_text \<noteq> [] then explanation_text
                                else no_explanation_result) # modal s\<rparr>"

definition explanation_dialog_returned :: "MainWindow \<Rightarrow> MainWindow" where
  "explanation_dialog_returned s =
    update_status_message Msg_explanation_done (reset_ui_after_task True s)"

section \<open>The slots connected to the worker's signals\<close>

definition handle_worker_result :: "str \<Rightarrow> str \<Rightarrow> MainWindow \<Rightarrow> MainWindow" where
  "handle_worker_result tag data s =
    (if tag = py ''ocr_result''
     then update_status_message Msg_ocr_done (s\<lparr>raw_ocr_text := data\<rparr>)
     else if tag = py ''corrected_text_result''
     then show_comparison_dialog
            (update_status_message Msg_correction_done (s\<lparr>current_corrected_text := data\<rparr>))
     else if tag = py ''explanation_result''
     then show_explanation_dialog data s
     else s)"

definition handle_worker_progress :: "str \<Rightarrow> int \<Rightarrow> MainWindow \<Rightarrow> MainWindow" where
  "handle_worker_progress tag v s = s\<lparr>progress_bar := v\<rparr>"

definition handle_worker_finished :: "MainWindow \<Rightarrow> MainWindow" where
  "handle_worker_finished s =
    (let s1 = (case current_worker_runnable s of
                 Some wk \<Rightarrow>
                   if task_type wk \<noteq> py ''corrected_text_result''
                   then s\<lparr>progress_bar := 100\<rparr> else s
               | None \<Rightarrow> s)
     in (set_buttons_for_task_running_state False s1)
          \<lparr>current_worker_runnable := None, stop_current_worker_event := None\<rparr>)"

text \<open>
  \<open>handle_worker_error\<close> up to its critical box, and the rest of it, run when the box
  is closed.
\<close>

definition handle_worker_error :: "str \<Rightarrow> exn \<Rightarrow> MainWindow \<Rightarrow> MainWindow" where
  "handle_worker_error t e s =
    (let s1 = show_box (Critical_task t e) (update_status_message (Msg_error t e) s)
     in s1\<lparr>modal := In_error_box # modal s1\<rparr>)"

definition error_box_returned :: "MainWindow \<Rightarrow> MainWindow" where
  "error_box_returned s =
    reset_ui_after_task True
      ((set_buttons_for_task_running_state False (s\<lparr>progress_bar := 0\<rparr>))
         \<lparr>current_worker_runnable := None, stop_current_worker_event := None\<rparr>)"

text \<open>
  A signal emitted by any worker ever started reaches the slot it was connected to in
  \<open>_start_background_worker\<close>; no connection is ever removed.
\<close>

fun deliver :: "signal \<Rightarrow> MainWindow \<Rightarrow> MainWindow" where
  "deliver (Progress t v) s = handle_worker_progress t v s"
| "deliver (Result t d) s = handle_worker_result t d s"
| "deliver (Error t e) s = handle_worker_error t e s"
| "deliver Finished s = handle_worker_finished s"

section \<open>What the controller thread does, one action at a time\<close>

text \<open>
  The actions of the controller thread: the human picks a file in the file dialog, drops
  a file, presses the analyze or the cancel button, a worker signal is delivered, or the
  innermost open dialog is closed (with the human's \<open>review\<close> when it is the comparison
  dialog). While a modal dialog is open the main window takes no input, and a disabled
  button takes no click.
\<close>

datatype action =
    Select_image str
  | Drop_image str
  | Click_analyze
  | Click_cancel
  | Deliver signal
  | Close review

definition close_dialog :: "world \<Rightarrow> review \<Rightarrow> MainWindow \<Rightarrow> MainWindow" where
  "close_dialog w r s =
    (case modal s of
       [] \<Rightarrow> s
     | In_comparison d # fs \<Rightarrow> comparison_dialog_returned w d r (s\<lparr>modal := fs\<rparr>)
     | In_explanation shown # fs \<Rightarrow> explanation_dialog_returned (s\<lparr>modal := fs\<rparr>)
     | In_error_box # fs \<Rightarrow> error_box_returned (s\<lparr>modal := fs\<rparr>)
     | In_no_text_box # fs \<Rightarrow> no_text_box_returned (s\<lparr>modal := fs\<rparr>))"

fun step :: "world \<Rightarrow> action \<Rightarrow> MainWindow \<Rightarrow> MainWindow" where
  "step w (Select_image p) s =
     (if modal s = [] \<and> select_image_button s then open_image_file_dialog p s else s)"
| "step w (Drop_image p) s = (if modal s = [] then dropEvent p s else s)"
| "step w Click_analyze s =
     (if modal s = [] \<and> analyze_button s then run_ocr_correction_task w s else s)"
| "step w Click_cancel s =
     (if modal s = [] \<and> cancel_task_button s then cancel_or_reset_all_processes s else s)"
| "step w (Deliver x) s = deliver x s"
| "step w (Close r) s = close_dialog w r s"

definition steps :: "world \<Rightarrow> action list \<Rightarrow> MainWindow \<Rightarrow> MainWindow" where
  "steps w as s = fold (step w) as s"

section \<open>Example worlds, windows and traces\<close>

text \<open>
  The worker slot and the stop event are set together and cleared together; \<open>paired\<close>
  says so of a state.
\<close>

definition paired :: "MainWindow \<Rightarrow> bool" where
  "paired s \<longleftrightarrow> (current_worker_runnable s = None) = (stop_current_worker_event s = None)"

text \<open>
  A world in which no image can be loaded, one whose generation engine returns the
  corrected text \<open>Hello wrold.\<close>, and one that tells the two images \<open>doc.png\<close> and
  \<open>new.png\<close> apart: its recognition engine reads a different text from each, and its
  generation engine returns its prompt (the templates of the scenario are empty).
\<close>

definition unreadable_world :: world where
  "unreadable_world = scenario_world\<lparr>imread := (\<lambda>p. False)\<rparr>"

definition typo_world :: world where
  "typo_world = scenario_world\<lparr>generate := (\<lambda>prompt params. Inr (py ''Hello wrold.''))\<rparr>"

definition two_image_world :: world where
  "two_image_world =
    scenario_world
      \<lparr>readtext := (\<lambda>p. if p = py ''doc.png'' then Inr [py ''Hello wrold'']
                          else Inr [py ''Other text'']),
       generate := (\<lambda>prompt params. Inr prompt)\<rparr>"

text \<open>
  A world whose recognition engine returns two fragments and whose generation engine
  returns its text with two spaces before it and a space and a newline after it.
\<close>

definition padded_world :: world where
  "padded_world =
    scenario_world
      \<lparr>readtext := (\<lambda>p. Inr [py ''Hello'', py ''wrold'']),
       generate := (\<lambda>prompt params. Inr (py ''  Hello world. '' @ [10]))\<rparr>"

text \<open>
  Windows reached from the initial one: after selecting \<open>doc.png\<close>; after also pressing
  the analyze button; at the review dialog, once every signal of the worker's run has been
  delivered; and in the middle of the analysis, when the worker has emitted its first five
  signals and is inside the generation call.
\<close>

definition selected_window :: MainWindow where
  "selected_window =
     steps scenario_world [Select_image (py ''doc.png'')] (MainWindow_init scenario_world)"

definition busy_window :: MainWindow where
  "busy_window =
     steps scenario_world [Select_image (py ''doc.png''), Click_analyze]
       (MainWindow_init scenario_world)"

definition review_window :: MainWindow where
  "review_window =
     steps typo_world
       ([Select_image (py ''doc.png''), Click_analyze]
        @ map Deliver (run typo_world never_set scenario_worker))
       (MainWindow_init typo_world)"

definition stale_window :: MainWindow where
  "stale_window =
     steps two_image_world
       ([Select_image (py ''doc.png''), Click_analyze]
        @ map Deliver (take 5 (run two_image_world never_set scenario_worker)))
       (MainWindow_init two_image_world)"

text \<open>
  Two traces. In the first the human cancels the analysis of \<open>a.png\<close> and starts the
  analysis of \<open>b.png\<close>. In the second a new image is dropped while the analysis of
  \<open>doc.png\<close> is inside the generation call, the analysis of the new image is started, and
  then the first worker's next signal, its corrected text, is delivered.
\<close>

definition cancel_then_restart :: "action list" where
  "cancel_then_restart =
    [Select_image (py ''a.png''), Click_analyze, Click_cancel,
     Select_image (py ''b.png''), Click_analyze]"

definition late_result_trace :: "action list" where
  "late_result_trace =
     [Select_image (py ''doc.png''), Click_analyze]
     @ map Deliver (take 5 (run two_image_world never_set scenario_worker))
     @ [Drop_image (py ''new.png''), Click_analyze]
     @ map Deliver (take 1 (drop 5 (run two_image_world never_set scenario_worker)))"


section \<open>Properties of the worker\<close>

subsection \<open>Strings and tags\<close>

lemma strip_decomposition:
  "\<exists>a b. s = a @ strip s @ b \<and> (\<forall>c \<in> set a. isspace c) \<and> (\<forall>c \<in> set b. isspace c)"
proof -
  let ?m = "dropWhile isspace s"
  have 1: "s = takeWhile isspace s @ ?m" by simp
  have "rev ?m = takeWhile isspace (rev ?m) @ dropWhile isspace (rev ?m)" by simp
  then have "?m = rev (dropWhile isspace (rev ?m)) @ rev (takeWhile isspace (rev ?m))"
    by (metis rev_append rev_rev_ident)
  then have 2: "?m = strip s @ rev (takeWhile isspace (rev ?m))"
    by (simp add: strip_def)
  have "s = takeWhile isspace s @ strip s @ rev (takeWhile isspace (rev ?m))"
    using 1 2 by metis
  moreover have "\<forall>c \<in> set (takeWhile isspace s). isspace c"
    by (auto dest: set_takeWhileD)
  moreover have "\<forall>c \<in> set (rev (takeWhile isspace (rev ?m))). isspace c"
    by (auto dest: set_takeWhileD)
  ultimately show ?thesis by blast
qed

lemma strip_ends:
  "strip s \<noteq> [] \<Longrightarrow> \<not> isspace (hd (strip s)) \<and> \<not> isspace (last (strip s))"
proof -
  assume n: "strip s \<noteq> []"
  let ?m = "dropWhile isspace s"
  let ?r = "dropWhile isspace (rev ?m)"
  from n have r: "?r \<noteq> []" by (simp add: strip_def)
  then have l: "\<not> isspace (hd ?r)" by (rule hd_dropWhile)
  then have "\<not> isspace (last (strip s))"
    using r by (simp add: strip_def last_rev)
  moreover have "\<not> isspace (hd (strip s))"
  proof -
    from r have m: "?m \<noteq> []" by (metis dropWhile.simps(1) rev.simps(1))
    then have hm: "\<not> isspace (hd ?m)" by (rule hd_dropWhile)
    obtain k where k: "rev ?m = takeWhile isspace (rev ?m) @ ?r" by simp
    have "?m = rev ?r @ rev (takeWhile isspace (rev ?m))"
      by (metis rev_append rev_rev_ident takeWhile_dropWhile_id)
    then have "hd ?m = hd (rev ?r)" using r by (metis hd_append2 rev_is_Nil_conv)
    with hm show ?thesis by (simp add: strip_def)
  qed
  ultimately show ?thesis by simp
qed

lemma strip_empty_iff: "strip s = [] \<longleftrightarrow> (\<forall>c \<in> set s. isspace c)"
proof -
  let ?m = "dropWhile isspace s"
  have "(\<forall>c \<in> set ?m. isspace c) \<longleftrightarrow> ?m = []"
  proof
    assume a: "\<forall>c \<in> set ?m. isspace c"
    show "?m = []"
    proof (rule ccontr)
      assume n: "?m \<noteq> []"
      then have "\<not> isspace (hd ?m)" by (rule hd_dropWhile)
      moreover from n have "hd ?m \<in> set ?m" by simp
      ultimately show False using a by blast
    qed
  next
    assume e: "?m = []"
    show "\<forall>c \<in> set ?m. isspace c" unfolding e by simp
  qed
  moreover have "strip s = [] \<longleftrightarrow> (\<forall>c \<in> set ?m. isspace c)"
    by (simp add: strip_def dropWhile_eq_Nil_conv)
  moreover have "?m = [] \<longleftrightarrow> (\<forall>c \<in> set s. isspace c)"
    by (simp add: dropWhile_eq_Nil_conv)
  ultimately show ?thesis by blast
qed

lemma strip_unique:
  assumes "out = a @ d @ b" "list_all isspace a" "list_all isspace b"
    "d = [] \<or> (\<not> isspace (hd d) \<and> \<not> isspace (last d))"
  shows "d = strip out"
proof (cases "d = []")
  case True
  with assms have "\<forall>c \<in> set out. isspace c" by (auto simp: list_all_iff)
  then have "strip out = []" by (simp add: strip_empty_iff)
  with True show ?thesis by simp
next
  case False
  with assms(4) have h: "\<not> isspace (hd d)" and l: "\<not> isspace (last d)" by simp_all
  from assms(2) have "\<And>x. x \<in> set a \<Longrightarrow> isspace x"
    by (simp add: list_all_iff)
  then have "dropWhile isspace (a @ d @ b) = dropWhile isspace (d @ b)"
    by (rule dropWhile_append2)
  also from False h have "\<dots> = d @ b" by (cases d) simp_all
  finally have 1: "dropWhile isspace out = d @ b" using assms(1) by simp
  from assms(3) have "\<And>x. x \<in> set (rev b) \<Longrightarrow> isspace x"
    by (simp add: list_all_iff)
  then have "dropWhile isspace (rev b @ rev d) = dropWhile isspace (rev d)"
    by (rule dropWhile_append2)
  also from False l have "\<dots> = rev d" by (cases "rev d") (simp_all add: last_rev [symmetric] hd_rev)
  finally have "dropWhile isspace (rev (d @ b)) = rev d" by simp
  with 1 show ?thesis by (simp add: strip_def)
qed

lemma strip_characterised:
  "(\<exists>a b. out = a @ strip out @ b \<and> list_all isspace a \<and> list_all isspace b) \<and>
   (strip out = [] \<or> \<not> isspace (hd (strip out)) \<and> \<not> isspace (last (strip out)))"
  using strip_decomposition [of out] strip_ends [of out] by (auto simp: list_all_iff)

lemma join_concat:
  "join sep frags = (case frags of [] \<Rightarrow> [] | f # fs \<Rightarrow> f @ concat (map ((@) sep) fs))"
  by (induction sep frags rule: join.induct) simp_all

lemma join_newline:
  "join [10] frags = (case frags of [] \<Rightarrow> [] | f # fs \<Rightarrow> f @ concat (map ((#) 10) fs))"
proof -
  have e: "((@) [10 :: nat]) = ((#) 10)"
    by (rule ext) simp
  show ?thesis
    by (simp add: join_concat e split: list.splits)
qed

lemma tags_distinct [simp]:
  "py ''ocr_result'' \<noteq> py ''corrected_text_result''"
  "py ''ocr_result'' \<noteq> py ''explanation_result''"
  "py ''corrected_text_result'' \<noteq> py ''explanation_result''"
  "py ''corrected_text_result'' \<noteq> py ''ocr_result''"
  "py ''explanation_result'' \<noteq> py ''ocr_result''"
  "py ''explanation_result'' \<noteq> py ''corrected_text_result''"
  "py ''ocr_correct'' \<noteq> py ''explain''"
  "py ''explain'' \<noteq> py ''ocr_correct''"
  by (simp_all add: py_def)

subsection \<open>The signals of a run\<close>

lemma fst_emit [simp]: "fst (emit x b) = x # fst b" by (simp add: emit_def)
lemma snd_emit [simp]: "snd (emit x b) = snd b" by (simp add: emit_def)
lemma fst_raise [simp]: "fst (raise e) = []" by (simp add: raise_def)
lemma snd_raise [simp]: "snd (raise e) = Some e" by (simp add: raise_def)
lemma fst_returns [simp]: "fst returns = []" by (simp add: returns_def)
lemma snd_returns [simp]: "snd returns = None" by (simp add: returns_def)

lemma scenario_run:
  "run scenario_world never_set scenario_worker =
    [Progress (py ''ocr_correct'') 5, Progress (py ''ocr_correct'') 10,
     Result (py ''ocr_result'') (py ''Hello wrold''),
     Progress (py ''ocr_correct'') 50, Progress (py ''ocr_correct'') 55,
     Result (py ''corrected_text_result'') (py ''Hello world.''),
     Progress (py ''ocr_correct'') 100, Finished]"
  by (simp add: run_def run_try_def run_ocr_correct_def recognize_stage_def correct_stage_def
      scenario_world_def scenario_worker_def strip_def isspace_def py_def never_set_def)

text \<open>
  The run on good inputs: the modules are present, the image exists and loads (or the
  text is not empty), the engines are available and return, and no check finds the stop
  flag set.
\<close>

lemma good_correct_stage:
  "llm_model self \<or> load_model w (model_name self) = None \<Longrightarrow> \<not> is_set 2 \<Longrightarrow>
   generate w (prompt_template_correction w t)
     \<lparr>max_tokens = length t * 2 + 300, temp = 6 / 10, top_k = 40, top_p = 9 / 10\<rparr> = Inr out \<Longrightarrow>
   correct_stage w is_set self t =
     ([Progress (task_type self) 55, Result (py ''corrected_text_result'') (strip out),
       Progress (task_type self) 100], None)"
  by (auto simp: correct_stage_def emit_def returns_def)

lemma good_recognize_stage:
  "ocr_reader self \<or> Reader w = None \<Longrightarrow> \<not> is_set 0 \<Longrightarrow> readtext w p = Inr frags \<Longrightarrow>
   \<not> is_set 1 \<Longrightarrow>
   llm_model self \<or> load_model w (model_name self) = None \<Longrightarrow> \<not> is_set 2 \<Longrightarrow>
   generate w (prompt_template_correction w (join [10] frags))
     \<lparr>max_tokens = length (join [10] frags) * 2 + 300, temp = 6 / 10, top_k = 40,
      top_p = 9 / 10\<rparr> = Inr out \<Longrightarrow>
   recognize_stage w is_set self p =
     ([Progress (task_type self) 10, Result (py ''ocr_result'') (join [10] frags),
       Progress (task_type self) 50, Progress (task_type self) 55,
       Result (py ''corrected_text_result'') (strip out),
       Progress (task_type self) 100], None)"
  by (auto simp: recognize_stage_def good_correct_stage emit_def)

lemma good_ocr_correct_run:
  "task_type self = py ''ocr_correct'' \<Longrightarrow> easyocr w \<Longrightarrow> GPT4All w \<Longrightarrow> cv2 w \<Longrightarrow>
   image_path self = Some p \<Longrightarrow> p \<noteq> [] \<Longrightarrow> path_exists w p \<Longrightarrow> imread w p \<Longrightarrow>
   ocr_reader self \<or> Reader w = None \<Longrightarrow> \<not> is_set 0 \<Longrightarrow> readtext w p = Inr frags \<Longrightarrow>
   \<not> is_set 1 \<Longrightarrow>
   llm_model self \<or> load_model w (model_name self) = None \<Longrightarrow> \<not> is_set 2 \<Longrightarrow>
   generate w (prompt_template_correction w (join [10] frags))
     \<lparr>max_tokens = length (join [10] frags) * 2 + 300, temp = 6 / 10, top_k = 40,
      top_p = 9 / 10\<rparr> = Inr out \<Longrightarrow>
   run w is_set self =
     [Progress (task_type self) 5, Progress (task_type self) 10,
      Result (py ''ocr_result'') (join [10] frags),
      Progress (task_type self) 50, Progress (task_type self) 55,
      Result (py ''corrected_text_result'') (strip out),
      Progress (task_type self) 100, Finished]"
  by (simp add: run_def run_try_def run_ocr_correct_def good_recognize_stage emit_def)

lemma good_explain_run:
  "task_type self = py ''explain'' \<Longrightarrow> GPT4All w \<Longrightarrow>
   text_input self = Some t \<Longrightarrow> t \<noteq> [] \<Longrightarrow>
   llm_model self \<or> load_model w (model_name self) = None \<Longrightarrow> \<not> is_set 0 \<Longrightarrow>
   generate w (prompt_template_explanation w t)
     \<lparr>max_tokens = length t + 500, temp = 7 / 10, top_k = 50, top_p = 95 / 100\<rparr> = Inr out \<Longrightarrow>
   run w is_set self =
     [Progress (task_type self) 10, Result (py ''explanation_result'') (strip out),
      Progress (task_type self) 100, Finished]"
  by (auto simp: run_def run_try_def run_explain_def emit_def returns_def)

lemma scenario_good:
  "task_type scenario_worker = py ''ocr_correct'' \<and> easyocr scenario_world \<and>
   GPT4All scenario_world \<and> cv2 scenario_world \<and>
   image_path scenario_worker = Some (py ''doc.png'') \<and> py ''doc.png'' \<noteq> [] \<and>
   path_exists scenario_world (py ''doc.png'') \<and> imread scenario_world (py ''doc.png'') \<and>
   (ocr_reader scenario_worker \<or> Reader scenario_world = None) \<and>
   readtext scenario_world (py ''doc.png'') = Inr [py ''Hello wrold''] \<and>
   (llm_model scenario_worker \<or> load_model scenario_world (model_name scenario_worker) = None) \<and>
   generate scenario_world
      (prompt_template_correction scenario_world (join [10] [py ''Hello wrold'']))
      \<lparr>max_tokens = length (join [10] [py ''Hello wrold'']) * 2 + 300, temp = 6 / 10,
       top_k = 40, top_p = 9 / 10\<rparr> = Inr (py ''Hello world.'') \<and>
   \<not> never_set 0 \<and> \<not> never_set 1 \<and> \<not> never_set 2"
  by (simp add: scenario_world_def scenario_worker_def never_set_def py_def)

lemma explain_good:
  "task_type explain_worker = py ''explain'' \<and> GPT4All scenario_world \<and>
   text_input explain_worker = Some (py ''Hello world.'') \<and> py ''Hello world.'' \<noteq> [] \<and>
   (llm_model explain_worker \<or> load_model scenario_world (model_name explain_worker) = None) \<and>
   generate scenario_world (prompt_template_explanation scenario_world (py ''Hello world.''))
      \<lparr>max_tokens = length (py ''Hello world.'') + 500, temp = 7 / 10, top_k = 50,
       top_p = 95 / 100\<rparr> = Inr (py ''Hello world.'') \<and>
   \<not> never_set 0"
  by (simp add: scenario_world_def explain_worker_def never_set_def py_def)

lemma padded_run:
  "run padded_world never_set scenario_worker =
    [Progress (py ''ocr_correct'') 5, Progress (py ''ocr_correct'') 10,
     Result (py ''ocr_result'') (py ''Hello'' @ 10 # py ''wrold''),
     Progress (py ''ocr_correct'') 50, Progress (py ''ocr_correct'') 55,
     Result (py ''corrected_text_result'') (py ''Hello world.''),
     Progress (py ''ocr_correct'') 100, Finished]"
  by (simp add: run_def run_try_def run_ocr_correct_def recognize_stage_def correct_stage_def
      padded_world_def scenario_world_def scenario_worker_def strip_def isspace_def py_def
      never_set_def)

lemma padded_explain_run:
  "run padded_world never_set explain_worker =
    [Progress (py ''explain'') 10, Result (py ''explanation_result'') (py ''Hello world.''),
     Progress (py ''explain'') 100, Finished]"
  by (simp add: run_def run_try_def run_explain_def
      padded_world_def scenario_world_def explain_worker_def strip_def isspace_def py_def
      never_set_def)

subsection \<open>Finished\<close>

lemma run_ends_with_Finished: "\<exists>es. run w is_set self = es @ [Finished]"
  by (simp add: run_def)

lemma uncancelled_correct:
  "count_list (fst (correct_stage w never_set self t)) Finished = 0"
  by (simp add: correct_stage_def never_set_def split: option.splits sum.splits)

lemma uncancelled_recognize:
  "count_list (fst (recognize_stage w never_set self p)) Finished = 0"
  by (simp add: recognize_stage_def uncancelled_correct split: option.splits sum.splits)
     (simp add: never_set_def)

lemma uncancelled_try:
  "count_list (fst (run_try w never_set self)) Finished = 0"
  by (simp add: run_try_def run_ocr_correct_def run_explain_def uncancelled_recognize
      split: option.splits sum.splits)
     (simp add: never_set_def)

lemma uncancelled_run_emits_Finished_once:
  "count_list (run w never_set self) Finished = 1"
  by (simp add: run_def uncancelled_try split: option.splits)

text \<open>
  Claim C3: every task attempt emits exactly one Finished signal, and it is the last
  signal of the attempt. The last signal of a run is always Finished
  (\<open>run_ends_with_Finished\<close>), and a run that never sees its stop flag set emits exactly
  one, on success and on error (\<open>uncancelled_run_emits_Finished_once\<close>). But a run that
  sees its stop flag set emits Finished in the \<open>try\<close> block, returns, and emits Finished
  again in the \<open>finally\<close> clause. Below, the scenario's worker with the stop flag set from
  the start: two Finished signals.
\<close>

theorem cancelled_run_emits_Finished_twice:
  "run scenario_world always_set scenario_worker =
    [Progress (py ''ocr_correct'') 5, Progress (py ''ocr_correct'') 10, Finished, Finished]"
  by (simp add: run_def run_try_def run_ocr_correct_def recognize_stage_def
      scenario_world_def scenario_worker_def py_def always_set_def)

subsection \<open>Progress\<close>

lemma percents_append [simp]: "percents (xs @ ys) = percents xs @ percents ys"
  by (induction xs rule: percents.induct) simp_all

lemma percents_correct: "prefix (percents (fst (correct_stage w is_set self t))) [55, 100]"
  by (simp add: correct_stage_def split: option.splits sum.splits)

lemma percents_recognize: "prefix (percents (fst (recognize_stage w is_set self p))) [10, 50, 55, 100]"
  by (simp add: recognize_stage_def percents_correct split: option.splits sum.splits)

lemma percents_ocr: "prefix (percents (fst (run_ocr_correct w is_set self))) [5, 10, 50, 55, 100]"
  by (simp add: run_ocr_correct_def percents_recognize split: option.splits)

lemma percents_explain: "prefix (percents (fst (run_explain w is_set self))) [10, 100]"
  by (simp add: run_explain_def split: option.splits sum.splits)

lemma percents_run: "percents (run w is_set self) = percents (fst (run_try w is_set self))"
  by (simp add: run_def split: option.splits)

lemma prefix_sorted: "prefix xs ys \<Longrightarrow> sorted ys \<Longrightarrow> sorted (xs :: int list)"
  by (auto simp: prefix_def sorted_append)

lemma sorted_run: "sorted (percents (run w is_set self))"
proof -
  have "sorted (percents (fst (run_ocr_correct w is_set self)))"
    using percents_ocr [of w is_set self] by (rule prefix_sorted) simp
  moreover have "sorted (percents (fst (run_explain w is_set self)))"
    using percents_explain [of w is_set self] by (rule prefix_sorted) simp
  ultimately show ?thesis
    by (simp add: percents_run run_try_def)
qed

lemma succ_correct:
  "list_ex is_final_result (fst (correct_stage w is_set self t)) \<Longrightarrow>
   percents (fst (correct_stage w is_set self t)) = [55, 100]"
  by (auto simp: correct_stage_def split: option.splits sum.splits if_splits)

lemma succ_recognize:
  "list_ex is_final_result (fst (recognize_stage w is_set self p)) \<Longrightarrow>
   percents (fst (recognize_stage w is_set self p)) = [10, 50, 55, 100]"
  by (auto simp: recognize_stage_def succ_correct split: option.splits sum.splits if_splits)

lemma succ_ocr:
  "list_ex is_final_result (fst (run_ocr_correct w is_set self)) \<Longrightarrow>
   percents (fst (run_ocr_correct w is_set self)) = [5, 10, 50, 55, 100]"
  by (auto simp: run_ocr_correct_def succ_recognize split: option.splits if_splits)

lemma succ_explain:
  "list_ex is_final_result (fst (run_explain w is_set self)) \<Longrightarrow>
   percents (fst (run_explain w is_set self)) = [10, 100]"
  by (auto simp: run_explain_def split: option.splits sum.splits if_splits)

lemma succeeded_run:
  "succeeded (run w is_set self) = list_ex is_final_result (fst (run_try w is_set self))"
  by (simp add: succeeded_def run_def split: option.splits)

text \<open>
  Claim C5: within one attempt the Progress percentages never decrease and end at 100 on
  success; the checkpoints are 5, 10, 50, 55, 100 for \<open>ocr_correct\<close> and 10, 100 for
  \<open>explain\<close>. Every run emits a prefix of its task type's checkpoints, in that order; a
  run that emits its final result has emitted all of them; and on good inputs (modules
  present, image readable or text not empty, engines available and returning, stop flag
  never found set) the run does emit its final result and all of its checkpoints.
\<close>

theorem progress_checkpoints:
  "sorted (percents (run w is_set self)) \<and>
   (task_type self = py ''ocr_correct'' \<longrightarrow>
      prefix (percents (run w is_set self)) [5, 10, 50, 55, 100] \<and>
      (succeeded (run w is_set self) \<longrightarrow> percents (run w is_set self) = [5, 10, 50, 55, 100])) \<and>
   (task_type self = py ''explain'' \<longrightarrow>
      prefix (percents (run w is_set self)) [10, 100] \<and>
      (succeeded (run w is_set self) \<longrightarrow> percents (run w is_set self) = [10, 100])) \<and>
   (succeeded (run w is_set self) \<longrightarrow> last (percents (run w is_set self)) = 100) \<and>
   (task_type self = py ''ocr_correct'' \<and> easyocr w \<and> GPT4All w \<and> cv2 w \<and>
    image_path self = Some p \<and> p \<noteq> [] \<and> path_exists w p \<and> imread w p \<and>
    (ocr_reader self \<or> Reader w = None) \<and> readtext w p = Inr frags \<and>
    (llm_model self \<or> load_model w (model_name self) = None) \<and>
    generate w (prompt_template_correction w (join [10] frags))
      \<lparr>max_tokens = length (join [10] frags) * 2 + 300, temp = 6 / 10, top_k = 40,
       top_p = 9 / 10\<rparr> = Inr out \<and>
    \<not> is_set 0 \<and> \<not> is_set 1 \<and> \<not> is_set 2 \<longrightarrow>
      succeeded (run w is_set self) \<and>
      percents (run w is_set self) = [5, 10, 50, 55, 100]) \<and>
   (task_type self = py ''explain'' \<and> GPT4All w \<and> text_input self = Some t \<and> t \<noteq> [] \<and>
    (llm_model self \<or> load_model w (model_name self) = None) \<and>
    generate w (prompt_template_explanation w t)
      \<lparr>max_tokens = length t + 500, temp = 7 / 10, top_k = 50, top_p = 95 / 100\<rparr>
      = Inr out' \<and>
    \<not> is_set 0 \<longrightarrow>
      succeeded (run w is_set self) \<and>
      percents (run w is_set self) = [10, 100])"
proof -
  have ocr: "task_type self = py ''ocr_correct'' \<Longrightarrow>
      run_try w is_set self = run_ocr_correct w is_set self"
    by (simp add: run_try_def)
  have expl: "task_type self = py ''explain'' \<Longrightarrow>
      run_try w is_set self = run_explain w is_set self"
    by (simp add: run_try_def)
  have other: "task_type self \<noteq> py ''ocr_correct'' \<Longrightarrow> task_type self \<noteq> py ''explain'' \<Longrightarrow>
      \<not> succeeded (run w is_set self)"
    by (simp add: succeeded_run run_try_def)
  have l: "succeeded (run w is_set self) \<Longrightarrow> last (percents (run w is_set self)) = 100"
  proof (cases "task_type self = py ''ocr_correct''")
    case True
    assume "succeeded (run w is_set self)"
    with True show ?thesis
      using succ_ocr [of w is_set self] by (simp add: succeeded_run percents_run ocr)
  next
    case False
    assume s: "succeeded (run w is_set self)"
    with False other have e: "task_type self = py ''explain''" by blast
    with s show ?thesis
      using succ_explain [of w is_set self] by (simp add: succeeded_run percents_run expl)
  qed
  have a: "sorted (percents (run w is_set self)) \<and>
   (task_type self = py ''ocr_correct'' \<longrightarrow>
      prefix (percents (run w is_set self)) [5, 10, 50, 55, 100] \<and>
      (succeeded (run w is_set self) \<longrightarrow> percents (run w is_set self) = [5, 10, 50, 55, 100])) \<and>
   (task_type self = py ''explain'' \<longrightarrow>
      prefix (percents (run w is_set self)) [10, 100] \<and>
      (succeeded (run w is_set self) \<longrightarrow> percents (run w is_set self) = [10, 100]))"
    using sorted_run [of w is_set self] percents_ocr [of w is_set self]
      percents_explain [of w is_set self] succ_ocr [of w is_set self]
      succ_explain [of w is_set self]
    by (auto simp: percents_run succeeded_run ocr expl)
  have g1: "task_type self = py ''ocr_correct'' \<and> easyocr w \<and> GPT4All w \<and> cv2 w \<and>
    image_path self = Some p \<and> p \<noteq> [] \<and> path_exists w p \<and> imread w p \<and>
    (ocr_reader self \<or> Reader w = None) \<and> readtext w p = Inr frags \<and>
    (llm_model self \<or> load_model w (model_name self) = None) \<and>
    generate w (prompt_template_correction w (join [10] frags))
      \<lparr>max_tokens = length (join [10] frags) * 2 + 300, temp = 6 / 10, top_k = 40,
       top_p = 9 / 10\<rparr> = Inr out \<and>
    \<not> is_set 0 \<and> \<not> is_set 1 \<and> \<not> is_set 2 \<longrightarrow>
      succeeded (run w is_set self) \<and>
      percents (run w is_set self) = [5, 10, 50, 55, 100]"
  proof
    assume h: "task_type self = py ''ocr_correct'' \<and> easyocr w \<and> GPT4All w \<and> cv2 w \<and>
      image_path self = Some p \<and> p \<noteq> [] \<and> path_exists w p \<and> imread w p \<and>
      (ocr_reader self \<or> Reader w = None) \<and> readtext w p = Inr frags \<and>
      (llm_model self \<or> load_model w (model_name self) = None) \<and>
      generate w (prompt_template_correction w (join [10] frags))
        \<lparr>max_tokens = length (join [10] frags) * 2 + 300, temp = 6 / 10, top_k = 40,
         top_p = 9 / 10\<rparr> = Inr out \<and>
      \<not> is_set 0 \<and> \<not> is_set 1 \<and> \<not> is_set 2"
    then have "run w is_set self =
       [Progress (task_type self) 5, Progress (task_type self) 10,
        Result (py ''ocr_result'') (join [10] frags),
        Progress (task_type self) 50, Progress (task_type self) 55,
        Result (py ''corrected_text_result'') (strip out),
        Progress (task_type self) 100, Finished]"
      using good_ocr_correct_run [of self w p is_set frags out] by blast
    then show "succeeded (run w is_set self) \<and>
        percents (run w is_set self) = [5, 10, 50, 55, 100]"
      by (simp add: succeeded_def)
  qed
  have g2: "task_type self = py ''explain'' \<and> GPT4All w \<and> text_input self = Some t \<and> t \<noteq> [] \<and>
    (llm_model self \<or> load_model w (model_name self) = None) \<and>
    generate w (prompt_template_explanation w t)
      \<lparr>max_tokens = length t + 500, temp = 7 / 10, top_k = 50, top_p = 95 / 100\<rparr>
      = Inr out' \<and>
    \<not> is_set 0 \<longrightarrow>
      succeeded (run w is_set self) \<and>
      percents (run w is_set self) = [10, 100]"
  proof
    assume h: "task_type self = py ''explain'' \<and> GPT4All w \<and> text_input self = Some t \<and>
      t \<noteq> [] \<and> (llm_model self \<or> load_model w (model_name self) = None) \<and>
      generate w (prompt_template_explanation w t)
        \<lparr>max_tokens = length t + 500, temp = 7 / 10, top_k = 50, top_p = 95 / 100\<rparr>
        = Inr out' \<and>
      \<not> is_set 0"
    then have "run w is_set self =
       [Progress (task_type self) 10, Result (py ''explanation_result'') (strip out'),
        Progress (task_type self) 100, Finished]"
      using good_explain_run [of self w t is_set out'] by blast
    then show "succeeded (run w is_set self) \<and> percents (run w is_set self) = [10, 100]"
      by (simp add: succeeded_def)
  qed
  have l': "succeeded (run w is_set self) \<longrightarrow> last (percents (run w is_set self)) = 100"
    using l by blast
  from a l' g1 g2 show ?thesis by blast
qed

theorem progress_checkpoints_witness:
  "task_type scenario_worker = py ''ocr_correct'' \<and>
   succeeded (run scenario_world never_set scenario_worker) \<and>
   percents (run scenario_world never_set scenario_worker) = [5, 10, 50, 55, 100] \<and>
   last (percents (run scenario_world never_set scenario_worker)) = 100 \<and>
   task_type explain_worker = py ''explain'' \<and>
   succeeded (run scenario_world never_set explain_worker) \<and>
   percents (run scenario_world never_set explain_worker) = [10, 100] \<and>
   last (percents (run scenario_world never_set explain_worker)) = 100"
proof -
  note ocr = progress_checkpoints [where w = scenario_world and is_set = never_set
      and self = scenario_worker and p = "py ''doc.png''" and frags = "[py ''Hello wrold'']"
      and out = "py ''Hello world.''"]
  note expl = progress_checkpoints [where w = scenario_world and is_set = never_set
      and self = explain_worker and t = "py ''Hello world.''" and out' = "py ''Hello world.''"]
  have 1: "succeeded (run scenario_world never_set scenario_worker) \<and>
      percents (run scenario_world never_set scenario_worker) = [5, 10, 50, 55, 100]"
    by (rule ocr [THEN conjunct2, THEN conjunct2, THEN conjunct2, THEN conjunct2,
          THEN conjunct1, THEN mp, OF scenario_good])
  have 2: "succeeded (run scenario_world never_set explain_worker) \<and>
      percents (run scenario_world never_set explain_worker) = [10, 100]"
    by (rule expl [THEN conjunct2, THEN conjunct2, THEN conjunct2, THEN conjunct2,
          THEN conjunct2, THEN mp, OF explain_good])
  have 3: "last (percents (run scenario_world never_set scenario_worker)) = 100"
    using 1 by simp
  have 4: "last (percents (run scenario_world never_set explain_worker)) = 100"
    using 2 by simp
  have 5: "task_type scenario_worker = py ''ocr_correct''"
    "task_type explain_worker = py ''explain''"
    by (simp_all add: scenario_worker_def explain_worker_def)
  from 1 2 3 4 5 show ?thesis by (simp only: simp_thms)
qed

subsection \<open>Order of the results\<close>

lemma result_order_split:
  "result_order seen (xs @ Result (py ''corrected_text_result'') d # ys) \<Longrightarrow>
   seen \<or> (\<exists>d'. Result (py ''ocr_result'') d' \<in> set xs)"
proof (induction xs arbitrary: seen)
  case Nil
  then show ?case by simp
next
  case (Cons x xs)
  show ?case
  proof (cases x)
    case (Result k d0)
    show ?thesis
    proof (cases "k = py ''ocr_result''")
      case True
      with Result show ?thesis by auto
    next
      case False
      with Result Cons.prems have "result_order seen (xs @ Result (py ''corrected_text_result'') d # ys)"
        by (cases seen) (simp_all split: if_splits)
      from Cons.IH [OF this] show ?thesis by auto
    qed
  next
    case (Progress t p)
    with Cons.prems have "result_order seen (xs @ Result (py ''corrected_text_result'') d # ys)"
      by simp
    from Cons.IH [OF this] show ?thesis by auto
  next
    case (Error t e)
    with Cons.prems have "result_order seen (xs @ Result (py ''corrected_text_result'') d # ys)"
      by simp
    from Cons.IH [OF this] show ?thesis by auto
  next
    case Finished
    with Cons.prems have "result_order seen (xs @ Result (py ''corrected_text_result'') d # ys)"
      by simp
    from Cons.IH [OF this] show ?thesis by auto
  qed
qed

lemma result_order_tail:
  "result_order seen (xs @ [Finished]) = result_order seen xs"
  "result_order seen (xs @ [Error t e, Finished]) = result_order seen xs"
  by (induction seen xs rule: result_order.induct) simp_all

lemma order_correct: "result_order True (fst (correct_stage w is_set self t))"
  by (simp add: correct_stage_def split: option.splits sum.splits)

lemma order_recognize: "result_order False (fst (recognize_stage w is_set self p))"
  by (simp add: recognize_stage_def order_correct split: option.splits sum.splits)

lemma order_ocr: "result_order False (fst (run_ocr_correct w is_set self))"
  by (simp add: run_ocr_correct_def order_recognize split: option.splits)

lemma order_explain: "result_order False (fst (run_explain w is_set self))"
  by (simp add: run_explain_def split: option.splits sum.splits)

lemma order_run: "result_order False (run w is_set self)"
  by (simp add: run_def run_try_def result_order_tail order_ocr order_explain
      split: option.splits)

text \<open>
  Claim C6: in every attempt a Result of kind \<open>corrected_text_result\<close> is emitted only
  after a Result of kind \<open>ocr_result\<close> of the same attempt: whatever precedes the
  corrected text in a run contains the raw text.
\<close>

theorem corrected_text_after_raw_text:
  "run w is_set self = xs @ Result (py ''corrected_text_result'') d # ys \<Longrightarrow>
   \<exists>d'. Result (py ''ocr_result'') d' \<in> set xs"
  using result_order_split [of False xs d ys] order_run [of w is_set self] by simp

theorem corrected_text_after_raw_text_witness:
  "run scenario_world never_set scenario_worker =
     [Progress (py ''ocr_correct'') 5, Progress (py ''ocr_correct'') 10,
      Result (py ''ocr_result'') (py ''Hello wrold''),
      Progress (py ''ocr_correct'') 50, Progress (py ''ocr_correct'') 55]
     @ Result (py ''corrected_text_result'') (py ''Hello world.'')
     # [Progress (py ''ocr_correct'') 100, Finished] \<and>
   (\<exists>d'. Result (py ''ocr_result'') d' \<in>
      set [Progress (py ''ocr_correct'') 5, Progress (py ''ocr_correct'') 10,
           Result (py ''ocr_result'') (py ''Hello wrold''),
           Progress (py ''ocr_correct'') 50, Progress (py ''ocr_correct'') 55])"
proof -
  have r: "run scenario_world never_set scenario_worker =
     [Progress (py ''ocr_correct'') 5, Progress (py ''ocr_correct'') 10,
      Result (py ''ocr_result'') (py ''Hello wrold''),
      Progress (py ''ocr_correct'') 50, Progress (py ''ocr_correct'') 55]
     @ Result (py ''corrected_text_result'') (py ''Hello world.'')
     # [Progress (py ''ocr_correct'') 100, Finished]"
    by (simp add: scenario_run)
  from corrected_text_after_raw_text [OF r] r show ?thesis by blast
qed

subsection \<open>The data of the results\<close>

lemma results_correct:
  "Result k d \<in> set (fst (correct_stage w is_set self t)) \<Longrightarrow>
   k = py ''corrected_text_result'' \<and>
   (\<exists>out. generate w (prompt_template_correction w t)
            \<lparr>max_tokens = length t * 2 + 300, temp = 6 / 10, top_k = 40, top_p = 9 / 10\<rparr>
          = Inr out \<and> d = strip out)"
  by (auto simp: correct_stage_def split: option.splits sum.splits if_splits)

lemma results_recognize:
  "Result k d \<in> set (fst (recognize_stage w is_set self p)) \<Longrightarrow>
   \<exists>frags. readtext w p = Inr frags \<and>
     (k = py ''ocr_result'' \<and> d = join [10] frags \<or>
      k = py ''corrected_text_result'' \<and>
      (\<exists>out. generate w (prompt_template_correction w (join [10] frags))
            \<lparr>max_tokens = length (join [10] frags) * 2 + 300, temp = 6 / 10,
             top_k = 40, top_p = 9 / 10\<rparr>
          = Inr out \<and> d = strip out))"
  by (auto simp: recognize_stage_def split: option.splits sum.splits if_splits
      dest: results_correct)

lemma results_ocr:
  "Result k d \<in> set (fst (run_ocr_correct w is_set self)) \<Longrightarrow>
   \<exists>p frags. image_path self = Some p \<and> readtext w p = Inr frags \<and>
     (k = py ''ocr_result'' \<and> d = join [10] frags \<or>
      k = py ''corrected_text_result'' \<and>
      (\<exists>out. generate w (prompt_template_correction w (join [10] frags))
            \<lparr>max_tokens = length (join [10] frags) * 2 + 300, temp = 6 / 10,
             top_k = 40, top_p = 9 / 10\<rparr>
          = Inr out \<and> d = strip out))"
  by (auto simp: run_ocr_correct_def split: option.splits if_splits
      dest: results_recognize)

lemma results_explain:
  "Result k d \<in> set (fst (run_explain w is_set self)) \<Longrightarrow>
   k = py ''explanation_result'' \<and>
   (\<exists>t out. text_input self = Some t \<and>
      generate w (prompt_template_explanation w t)
            \<lparr>max_tokens = length t + 500, temp = 7 / 10, top_k = 50, top_p = 95 / 100\<rparr>
          = Inr out \<and> d = strip out)"
  by (auto simp: run_explain_def split: option.splits sum.splits if_splits)

lemma results_run:
  "Result k d \<in> set (run w is_set self) \<Longrightarrow>
   task_type self = py ''ocr_correct'' \<and> Result k d \<in> set (fst (run_ocr_correct w is_set self)) \<or>
   task_type self = py ''explain'' \<and> Result k d \<in> set (fst (run_explain w is_set self))"
  by (auto simp: run_def run_try_def split: option.splits if_splits)

lemma results_of_run:
  "Result k d \<in> set (run w is_set self) \<Longrightarrow>
   (k = py ''ocr_result'' \<and>
      (\<exists>p frags. image_path self = Some p \<and> readtext w p = Inr frags \<and>
         d = join [10] frags)) \<or>
   (k = py ''corrected_text_result'' \<and>
      (\<exists>p frags out. image_path self = Some p \<and> readtext w p = Inr frags \<and>
         generate w (prompt_template_correction w (join [10] frags))
            \<lparr>max_tokens = length (join [10] frags) * 2 + 300, temp = 6 / 10,
             top_k = 40, top_p = 9 / 10\<rparr> = Inr out \<and>
         d = strip out)) \<or>
   (k = py ''explanation_result'' \<and>
      (\<exists>t out. text_input self = Some t \<and>
         generate w (prompt_template_explanation w t)
            \<lparr>max_tokens = length t + 500, temp = 7 / 10, top_k = 50, top_p = 95 / 100\<rparr>
           = Inr out \<and>
         d = strip out))"
proof -
  assume r: "Result k d \<in> set (run w is_set self)"
  from results_run [OF r] show ?thesis
  proof
    assume "task_type self = py ''ocr_correct'' \<and>
      Result k d \<in> set (fst (run_ocr_correct w is_set self))"
    then have "Result k d \<in> set (fst (run_ocr_correct w is_set self))" ..
    from results_ocr [OF this] show ?thesis by blast
  next
    assume "task_type self = py ''explain'' \<and>
      Result k d \<in> set (fst (run_explain w is_set self))"
    then have "Result k d \<in> set (fst (run_explain w is_set self))" ..
    from results_explain [OF this] show ?thesis by blast
  qed
qed

text \<open>
  Claim C9: the data of the emitted Results is normalized. The raw text is the fragments
  returned by \<open>readtext\<close> joined with the newline character (code point 10): the first
  fragment, then each further fragment with a newline before it. The corrected text and
  the explanation are the output of \<open>generate\<close> with leading and trailing whitespace
  stripped: the output is the data between two runs of whitespace, and the data is empty
  or begins and ends with a code point that is not whitespace. That determines the data
  (\<open>strip_unique\<close>).
\<close>

theorem result_data_normalized:
  "Result k d \<in> set (run w is_set self) \<Longrightarrow>
   (k = py ''ocr_result'' \<and>
      (\<exists>p frags. image_path self = Some p \<and> readtext w p = Inr frags \<and>
         d = (case frags of [] \<Rightarrow> [] | f # fs \<Rightarrow> f @ concat (map ((#) 10) fs)))) \<or>
   (k = py ''corrected_text_result'' \<and>
      (\<exists>p frags raw out a b. image_path self = Some p \<and> readtext w p = Inr frags \<and>
         raw = (case frags of [] \<Rightarrow> [] | f # fs \<Rightarrow> f @ concat (map ((#) 10) fs)) \<and>
         generate w (prompt_template_correction w raw)
            \<lparr>max_tokens = length raw * 2 + 300, temp = 6 / 10,
             top_k = 40, top_p = 9 / 10\<rparr> = Inr out \<and>
         out = a @ d @ b \<and> list_all isspace a \<and> list_all isspace b \<and>
         (d = [] \<or> \<not> isspace (hd d) \<and> \<not> isspace (last d)))) \<or>
   (k = py ''explanation_result'' \<and>
      (\<exists>t out a b. text_input self = Some t \<and>
         generate w (prompt_template_explanation w t)
            \<lparr>max_tokens = length t + 500, temp = 7 / 10, top_k = 50, top_p = 95 / 100\<rparr>
           = Inr out \<and>
         out = a @ d @ b \<and> list_all isspace a \<and> list_all isspace b \<and>
         (d = [] \<or> \<not> isspace (hd d) \<and> \<not> isspace (last d))))"
proof -
  assume r: "Result k d \<in> set (run w is_set self)"
  from results_of_run [OF r] show ?thesis
  proof (elim disjE conjE exE)
    fix p frags
    assume "k = py ''ocr_result''" "image_path self = Some p" "readtext w p = Inr frags"
      "d = join [10] frags"
    then show ?thesis
      using join_newline [of frags] by auto
  next
    fix p frags out
    assume k: "k = py ''corrected_text_result''" and p: "image_path self = Some p"
      and f: "readtext w p = Inr frags"
      and g: "generate w (prompt_template_correction w (join [10] frags))
            \<lparr>max_tokens = length (join [10] frags) * 2 + 300, temp = 6 / 10,
             top_k = 40, top_p = 9 / 10\<rparr> = Inr out"
      and d: "d = strip out"
    from strip_characterised [of out] d obtain a b where
      c: "out = a @ d @ b" "list_all isspace a" "list_all isspace b"
         "d = [] \<or> \<not> isspace (hd d) \<and> \<not> isspace (last d)"
      by blast
    have "\<exists>raw. raw = (case frags of [] \<Rightarrow> [] | f # fs \<Rightarrow> f @ concat (map ((#) 10) fs)) \<and>
         generate w (prompt_template_correction w raw)
            \<lparr>max_tokens = length raw * 2 + 300, temp = 6 / 10,
             top_k = 40, top_p = 9 / 10\<rparr> = Inr out"
      using g join_newline [of frags] by metis
    with k p f c show ?thesis by blast
  next
    fix t out
    assume k: "k = py ''explanation_result''" and t: "text_input self = Some t"
      and g: "generate w (prompt_template_explanation w t)
            \<lparr>max_tokens = length t + 500, temp = 7 / 10, top_k = 50, top_p = 95 / 100\<rparr>
           = Inr out"
      and d: "d = strip out"
    from strip_characterised [of out] d obtain a b where
      c: "out = a @ d @ b" "list_all isspace a" "list_all isspace b"
         "d = [] \<or> \<not> isspace (hd d) \<and> \<not> isspace (last d)"
      by blast
    with k t g show ?thesis by blast
  qed
qed

theorem result_data_normalized_witness:
  "Result (py ''ocr_result'') (py ''Hello'' @ 10 # py ''wrold'')
     \<in> set (run padded_world never_set scenario_worker) \<and>
   Result (py ''corrected_text_result'') (py ''Hello world.'')
     \<in> set (run padded_world never_set scenario_worker) \<and>
   Result (py ''explanation_result'') (py ''Hello world.'')
     \<in> set (run padded_world never_set explain_worker) \<and>
   readtext padded_world (py ''doc.png'') = Inr [py ''Hello'', py ''wrold''] \<and>
   generate padded_world (prompt_template_explanation padded_world (py ''Hello world.''))
     \<lparr>max_tokens = length (py ''Hello world.'') + 500, temp = 7 / 10, top_k = 50,
      top_p = 95 / 100\<rparr> = Inr (py ''  Hello world. '' @ [10]) \<and>
   (\<exists>p frags. image_path scenario_worker = Some p \<and> readtext padded_world p = Inr frags \<and>
      py ''Hello'' @ 10 # py ''wrold''
        = (case frags of [] \<Rightarrow> [] | f # fs \<Rightarrow> f @ concat (map ((#) 10) fs))) \<and>
   (\<exists>p frags raw out a b. image_path scenario_worker = Some p \<and>
      readtext padded_world p = Inr frags \<and>
      raw = (case frags of [] \<Rightarrow> [] | f # fs \<Rightarrow> f @ concat (map ((#) 10) fs)) \<and>
      generate padded_world (prompt_template_correction padded_world raw)
        \<lparr>max_tokens = length raw * 2 + 300, temp = 6 / 10,
         top_k = 40, top_p = 9 / 10\<rparr> = Inr out \<and>
      out = a @ py ''Hello world.'' @ b \<and> list_all isspace a \<and> list_all isspace b \<and>
      (py ''Hello world.'' = [] \<or>
       \<not> isspace (hd (py ''Hello world.'')) \<and> \<not> isspace (last (py ''Hello world.'')))) \<and>
   (\<exists>t out a b. text_input explain_worker = Some t \<and>
      generate padded_world (prompt_template_explanation padded_world t)
        \<lparr>max_tokens = length t + 500, temp = 7 / 10, top_k = 50, top_p = 95 / 100\<rparr>
        = Inr out \<and>
      out = a @ py ''Hello world.'' @ b \<and> list_all isspace a \<and> list_all isspace b \<and>
      (py ''Hello world.'' = [] \<or>
       \<not> isspace (hd (py ''Hello world.'')) \<and> \<not> isspace (last (py ''Hello world.''))))"
proof -
  have m1: "Result (py ''ocr_result'') (py ''Hello'' @ 10 # py ''wrold'')
     \<in> set (run padded_world never_set scenario_worker)"
    by (simp add: padded_run)
  have m2: "Result (py ''corrected_text_result'') (py ''Hello world.'')
     \<in> set (run padded_world never_set scenario_worker)"
    by (simp add: padded_run)
  have m3: "Result (py ''explanation_result'') (py ''Hello world.'')
     \<in> set (run padded_world never_set explain_worker)"
    by (simp add: padded_explain_run)
  have w: "readtext padded_world (py ''doc.png'') = Inr [py ''Hello'', py ''wrold'']"
    "generate padded_world (prompt_template_explanation padded_world (py ''Hello world.''))
     \<lparr>max_tokens = length (py ''Hello world.'') + 500, temp = 7 / 10, top_k = 50,
      top_p = 95 / 100\<rparr> = Inr (py ''  Hello world. '' @ [10])"
    by (simp_all add: padded_world_def scenario_world_def)
  note t1 = result_data_normalized [OF m1]
  note t2 = result_data_normalized [OF m2]
  note t3 = result_data_normalized [OF m3]
  have d: "py ''ocr_result'' \<noteq> py ''corrected_text_result''"
    "py ''ocr_result'' \<noteq> py ''explanation_result''"
    "py ''corrected_text_result'' \<noteq> py ''ocr_result''"
    "py ''corrected_text_result'' \<noteq> py ''explanation_result''"
    "py ''explanation_result'' \<noteq> py ''ocr_result''"
    "py ''explanation_result'' \<noteq> py ''corrected_text_result''"
    by simp_all
  from t1 d have c1: "\<exists>p frags. image_path scenario_worker = Some p \<and>
      readtext padded_world p = Inr frags \<and>
      py ''Hello'' @ 10 # py ''wrold''
        = (case frags of [] \<Rightarrow> [] | f # fs \<Rightarrow> f @ concat (map ((#) 10) fs))"
    by blast
  from t2 d have c2: "\<exists>p frags raw out a b. image_path scenario_worker = Some p \<and>
      readtext padded_world p = Inr frags \<and>
      raw = (case frags of [] \<Rightarrow> [] | f # fs \<Rightarrow> f @ concat (map ((#) 10) fs)) \<and>
      generate padded_world (prompt_template_correction padded_world raw)
        \<lparr>max_tokens = length raw * 2 + 300, temp = 6 / 10,
         top_k = 40, top_p = 9 / 10\<rparr> = Inr out \<and>
      out = a @ py ''Hello world.'' @ b \<and> list_all isspace a \<and> list_all isspace b \<and>
      (py ''Hello world.'' = [] \<or>
       \<not> isspace (hd (py ''Hello world.'')) \<and> \<not> isspace (last (py ''Hello world.'')))"
    by blast
  from t3 d have c3: "\<exists>t out a b. text_input explain_worker = Some t \<and>
      generate padded_world (prompt_template_explanation padded_world t)
        \<lparr>max_tokens = length t + 500, temp = 7 / 10, top_k = 50, top_p = 95 / 100\<rparr>
        = Inr out \<and>
      out = a @ py ''Hello world.'' @ b \<and> list_all isspace a \<and> list_all isspace b \<and>
      (py ''Hello world.'' = [] \<or>
       \<not> isspace (hd (py ''Hello world.'')) \<and> \<not> isspace (last (py ''Hello world.'')))"
    by blast
  from m1 m2 m3 w c1 c2 c3 show ?thesis by (simp only: simp_thms)
qed

section \<open>Properties of the main window\<close>

subsection \<open>Frame lemmas and the example states\<close>

lemmas window_defs = update_status_message_def show_box_def set_buttons_for_task_running_state_def
  reset_ui_after_task_def cancel_current_worker_if_running_def cancel_or_reset_all_processes_def
  load_image_and_prepare_analysis_def open_image_file_dialog_def dropEvent_def
  start_background_worker_def run_ocr_correction_task_def run_explanation_task_def
  show_comparison_dialog_def comparison_dialog_returned_def no_text_box_returned_def
  show_explanation_dialog_def explanation_dialog_returned_def handle_worker_result_def
  handle_worker_progress_def handle_worker_finished_def handle_worker_error_def
  error_box_returned_def close_dialog_def

lemma basic_pool [simp]:
  "threadpool (update_status_message m s) = threadpool s"
  "threadpool (show_box b s) = threadpool s"
  "threadpool (set_buttons_for_task_running_state r s) = threadpool s"
  "threadpool (reset_ui_after_task full s) = threadpool s"
  by (simp_all add: update_status_message_def show_box_def
      set_buttons_for_task_running_state_def reset_ui_after_task_def Let_def)

lemma basic_slot [simp]:
  "current_worker_runnable (update_status_message m s) = current_worker_runnable s"
  "current_worker_runnable (show_box b s) = current_worker_runnable s"
  "current_worker_runnable (set_buttons_for_task_running_state r s) = current_worker_runnable s"
  "current_worker_runnable (reset_ui_after_task full s) = current_worker_runnable s"
  by (simp_all add: update_status_message_def show_box_def
      set_buttons_for_task_running_state_def reset_ui_after_task_def Let_def)

lemma basic_paired [simp]:
  "paired (update_status_message m s) = paired s"
  "paired (show_box b s) = paired s"
  "paired (set_buttons_for_task_running_state r s) = paired s"
  "paired (reset_ui_after_task full s) = paired s"
  by (simp_all add: paired_def update_status_message_def show_box_def
      set_buttons_for_task_running_state_def reset_ui_after_task_def Let_def)

lemma start_pool:
  "threadpool (start_background_worker task img inp s) =
     (if current_worker_runnable s = None
      then threadpool s @ [\<lparr>task_type = task, image_path = img, text_input = inp,
             model_name = llm_model_name s, stop_event = length (events s),
             ocr_reader = ocr_reader_instance s, llm_model = llm_model_instance s\<rparr>]
      else threadpool s)"
  by (simp add: start_background_worker_def Let_def)

lemma start_slot:
  "current_worker_runnable (start_background_worker task img inp s) =
     (if current_worker_runnable s = None
      then Some \<lparr>task_type = task, image_path = img, text_input = inp,
             model_name = llm_model_name s, stop_event = length (events s),
             ocr_reader = ocr_reader_instance s, llm_model = llm_model_instance s\<rparr>
      else current_worker_runnable s)"
  by (simp add: start_background_worker_def Let_def)

lemma start_texts [simp]:
  "raw_ocr_text (start_background_worker task img inp s) = raw_ocr_text s"
  "current_corrected_text (start_background_worker task img inp s) = current_corrected_text s"
  "final_accepted_text_for_explanation (start_background_worker task img inp s)
     = final_accepted_text_for_explanation s"
  "current_image_path (start_background_worker task img inp s) = current_image_path s"
  by (simp_all add: start_background_worker_def update_status_message_def
      set_buttons_for_task_running_state_def Let_def)

lemma start_progress:
  "current_worker_runnable s = None \<Longrightarrow> progress_bar (start_background_worker task img inp s) = 0"
  by (simp add: start_background_worker_def update_status_message_def
      set_buttons_for_task_running_state_def Let_def)

lemma cancel_pool [simp]:
  "threadpool (snd (cancel_current_worker_if_running s)) = threadpool s"
  by (simp add: cancel_current_worker_if_running_def split: option.splits)

lemma cancel_fields [simp]:
  "length (events (snd (cancel_current_worker_if_running s))) = length (events s)"
  "llm_model_name (snd (cancel_current_worker_if_running s)) = llm_model_name s"
  "ocr_reader_instance (snd (cancel_current_worker_if_running s)) = ocr_reader_instance s"
  "llm_model_instance (snd (cancel_current_worker_if_running s)) = llm_model_instance s"
  by (simp_all add: cancel_current_worker_if_running_def set_buttons_for_task_running_state_def
      update_status_message_def split: option.splits)

lemma cancel_running:
  "current_worker_runnable s = Some wk \<Longrightarrow> stop_current_worker_event s = Some ev \<Longrightarrow>
   fst (cancel_current_worker_if_running s) \<and>
   current_worker_runnable (snd (cancel_current_worker_if_running s)) = None \<and>
   stop_current_worker_event (snd (cancel_current_worker_if_running s)) = None \<and>
   events (snd (cancel_current_worker_if_running s)) = (events s)[ev := True]"
  by (simp add: cancel_current_worker_if_running_def set_buttons_for_task_running_state_def
      update_status_message_def)

lemma cancel_idle:
  "(current_worker_runnable s = None) = (stop_current_worker_event s = None) \<Longrightarrow>
   current_worker_runnable (snd (cancel_current_worker_if_running s)) = None \<and>
   stop_current_worker_event (snd (cancel_current_worker_if_running s)) = None"
  by (auto simp: cancel_current_worker_if_running_def set_buttons_for_task_running_state_def
      update_status_message_def split: option.splits)

lemma cancel_all_pool [simp]: "threadpool (cancel_or_reset_all_processes s) = threadpool s"
proof -
  have "threadpool (cancel_or_reset_all_processes s)
      = threadpool (snd (cancel_current_worker_if_running s))"
    by (cases "cancel_current_worker_if_running s")
       (simp add: cancel_or_reset_all_processes_def split: bool.splits)
  then show ?thesis by simp
qed

lemma load_state:
  "load_image_and_prepare_analysis p s =
    (snd (cancel_current_worker_if_running s))
      \<lparr>current_image_path := Some p, image_display_label := Some p, raw_ocr_text := [],
       current_corrected_text := [], final_accepted_text_for_explanation := [],
       progress_bar := 0, analyze_button := True, status_label := Msg_image_loaded p\<rparr>"
  by (simp add: load_image_and_prepare_analysis_def update_status_message_def Let_def)

lemma load_pool [simp]: "threadpool (load_image_and_prepare_analysis p s) = threadpool s"
  by (simp add: load_image_and_prepare_analysis_def Let_def)

lemma reset_partial:
  "raw_ocr_text (reset_ui_after_task False s) = []"
  "current_corrected_text (reset_ui_after_task False s) = []"
  "final_accepted_text_for_explanation (reset_ui_after_task False s) = []"
  "progress_bar (reset_ui_after_task False s) = 0"
  "current_image_path (reset_ui_after_task False s) = current_image_path s"
  "status_label (reset_ui_after_task False s) = Msg_task_done"
  "select_image_button (reset_ui_after_task False s)"
  "cancel_task_button (reset_ui_after_task False s)"
  "analyze_button (reset_ui_after_task False s) = truthy (current_image_path s)"
  "modal (reset_ui_after_task False s) = modal s"
  by (simp_all add: reset_ui_after_task_def update_status_message_def
      set_buttons_for_task_running_state_def Let_def)

lemma busy_window_slot: "current_worker_runnable busy_window = Some scenario_worker"
  by (simp add: busy_window_def steps_def window_defs MainWindow_init_def scenario_world_def
      scenario_worker_def py_def Let_def)

lemma busy_window_pool: "threadpool busy_window = [scenario_worker]"
  by (simp add: busy_window_def steps_def window_defs MainWindow_init_def scenario_world_def
      scenario_worker_def py_def Let_def)

lemma busy_window_facts:
  "stop_current_worker_event busy_window = Some 0"
  "events busy_window = [False]"
  "current_worker_runnable (step scenario_world Click_cancel busy_window) = None"
  by (simp_all add: busy_window_def steps_def window_defs MainWindow_init_def
      scenario_world_def scenario_worker_def py_def Let_def)

lemma selected_window_facts:
  "current_worker_runnable selected_window = None"
  "threadpool selected_window = []"
  "threadpool (step scenario_world Click_analyze selected_window) = [scenario_worker]"
  by (simp_all add: selected_window_def steps_def window_defs MainWindow_init_def
      scenario_world_def scenario_worker_def py_def Let_def)

lemma selected_window_path: "current_image_path selected_window = Some (py ''doc.png'')"
  by (simp add: selected_window_def steps_def window_defs MainWindow_init_def
      scenario_world_def py_def Let_def)

lemma unreadable_world_facts:
  "easyocr unreadable_world" "GPT4All unreadable_world" "cv2 unreadable_world"
  "\<not> imread unreadable_world p"
  by (simp_all add: unreadable_world_def scenario_world_def)

lemma typo_run:
  "run typo_world never_set scenario_worker =
    [Progress (py ''ocr_correct'') 5, Progress (py ''ocr_correct'') 10,
     Result (py ''ocr_result'') (py ''Hello wrold''),
     Progress (py ''ocr_correct'') 50, Progress (py ''ocr_correct'') 55,
     Result (py ''corrected_text_result'') (py ''Hello wrold.''),
     Progress (py ''ocr_correct'') 100, Finished]"
  by (simp add: run_def run_try_def run_ocr_correct_def recognize_stage_def correct_stage_def
      typo_world_def scenario_world_def scenario_worker_def strip_def isspace_def py_def
      never_set_def)

lemma review_window_facts:
  "modal review_window =
     [In_comparison (ComparisonDialog_init (Some (py ''doc.png'')) (py ''Hello wrold'')
        (py ''Hello wrold.''))]"
  "current_worker_runnable review_window = None"
  "llm_model_instance review_window"
  "threadpool review_window = [scenario_worker]"
  "events review_window = [False]"
  "llm_model_name review_window = py ''Meta-Llama-3-8B-Instruct.Q4_0.gguf''"
  "ocr_reader_instance review_window"
  "current_corrected_text review_window = py ''Hello wrold.''"
  unfolding review_window_def typo_run
  by (simp_all add: steps_def window_defs MainWindow_init_def
      typo_world_def scenario_world_def scenario_worker_def py_def Let_def
      ComparisonDialog_init_def)

lemma two_image_run:
  "run two_image_world never_set scenario_worker =
    [Progress (py ''ocr_correct'') 5, Progress (py ''ocr_correct'') 10,
     Result (py ''ocr_result'') (py ''Hello wrold''),
     Progress (py ''ocr_correct'') 50, Progress (py ''ocr_correct'') 55,
     Result (py ''corrected_text_result'') (py ''Hello wrold''),
     Progress (py ''ocr_correct'') 100, Finished]"
  by (simp add: run_def run_try_def run_ocr_correct_def recognize_stage_def correct_stage_def
      two_image_world_def scenario_world_def scenario_worker_def strip_def isspace_def py_def
      prompt_template_correction_def never_set_def)

lemma stale_window_facts:
  "current_worker_runnable stale_window = Some scenario_worker"
  "stop_current_worker_event stale_window = Some 0"
  "events stale_window = [False]"
  "threadpool stale_window = [scenario_worker]"
  "raw_ocr_text stale_window = py ''Hello wrold''"
  "progress_bar stale_window = 55"
  "ocr_reader_instance stale_window"
  "llm_model_instance stale_window"
  "llm_model_name stale_window = py ''Meta-Llama-3-8B-Instruct.Q4_0.gguf''"
  unfolding stale_window_def two_image_run
  by (simp_all add: steps_def window_defs MainWindow_init_def
      two_image_world_def scenario_world_def scenario_worker_def py_def Let_def)

subsection \<open>The worker slot and its stop event go together\<close>

lemma start_paired: "paired s \<Longrightarrow> paired (start_background_worker task img inp s)"
  by (simp add: paired_def start_background_worker_def update_status_message_def
      set_buttons_for_task_running_state_def Let_def)

lemma cancel_paired: "paired s \<Longrightarrow> paired (snd (cancel_current_worker_if_running s))"
  by (auto simp: paired_def cancel_current_worker_if_running_def
      update_status_message_def set_buttons_for_task_running_state_def split: option.splits)

lemma cancel_all_paired: "paired s \<Longrightarrow> paired (cancel_or_reset_all_processes s)"
proof -
  assume p: "paired s"
  have "paired (cancel_or_reset_all_processes s)
      = paired (snd (cancel_current_worker_if_running s))"
    by (cases "cancel_current_worker_if_running s")
       (simp add: cancel_or_reset_all_processes_def split: bool.splits)
  with cancel_paired [OF p] show ?thesis by simp
qed

lemma load_paired: "paired s \<Longrightarrow> paired (load_image_and_prepare_analysis p s)"
  using cancel_paired [of s] by (simp add: load_state paired_def)

lemma ocr_task_paired: "paired s \<Longrightarrow> paired (run_ocr_correction_task w s)"
proof -
  assume p: "paired s"
  then have "paired (s\<lparr>raw_ocr_text := [], current_corrected_text := []\<rparr>)"
    by (simp add: paired_def)
  then show ?thesis
    using p by (simp add: run_ocr_correction_task_def start_paired)
qed

lemma explanation_task_paired: "paired s \<Longrightarrow> paired (run_explanation_task w t s)"
  by (simp add: run_explanation_task_def start_paired)

lemma comparison_returned_paired:
  "paired s \<Longrightarrow> paired (comparison_dialog_returned w d r s)"
proof (cases r)
  case Redo
  assume "paired s"
  then show ?thesis
    using Redo by (simp add: comparison_dialog_returned_def ocr_task_paired)
next
  case (Accept t)
  assume p: "paired s"
  then have q: "paired (s\<lparr>final_accepted_text_for_explanation := t\<rparr>)"
    by (simp add: paired_def)
  then have "paired ((show_box Warning_no_text (s\<lparr>final_accepted_text_for_explanation := t\<rparr>))
      \<lparr>modal := In_no_text_box # modal s\<rparr>)"
    by (simp add: paired_def show_box_def)
  with q show ?thesis
    using Accept
    by (simp add: comparison_dialog_returned_def on_accept_def get_accepted_text_def Let_def
        explanation_task_paired)
next
  case Cancel
  assume "paired s"
  then show ?thesis
    using Cancel by (simp add: comparison_dialog_returned_def)
qed

lemma deliver_paired: "paired s \<Longrightarrow> paired (deliver x s)"
proof (cases x)
  case (Progress t v)
  assume "paired s"
  then show ?thesis using Progress by (simp add: handle_worker_progress_def paired_def)
next
  case (Result t d)
  assume p: "paired s"
  have m: "\<And>u f. paired (u\<lparr>modal := f\<rparr>) = paired u" by (simp add: paired_def)
  from p have "paired (s\<lparr>raw_ocr_text := d\<rparr>)" "paired (s\<lparr>current_corrected_text := d\<rparr>)"
    by (simp_all add: paired_def)
  then show ?thesis
    using Result p
    by (simp add: handle_worker_result_def show_comparison_dialog_def
        show_explanation_dialog_def m)
next
  case (Error t e)
  assume p: "paired s"
  have m: "\<And>u f. paired (u\<lparr>modal := f\<rparr>) = paired u" by (simp add: paired_def)
  show ?thesis using Error p by (simp add: handle_worker_error_def Let_def m)
next
  case Finished
  show ?thesis using Finished
    by (simp add: handle_worker_finished_def paired_def set_buttons_for_task_running_state_def
        Let_def)
qed

lemma close_paired: "paired s \<Longrightarrow> paired (close_dialog w r s)"
proof -
  assume p: "paired s"
  have m: "\<And>f. paired (s\<lparr>modal := f\<rparr>)" using p by (simp add: paired_def)
  have e: "\<And>u. paired (error_box_returned u)"
    by (simp add: error_box_returned_def)
       (simp add: paired_def)
  show ?thesis
    using p m e
    by (simp add: close_dialog_def comparison_returned_paired explanation_dialog_returned_def
        no_text_box_returned_def split: list.splits frame.splits)
qed

lemma step_paired: "paired s \<Longrightarrow> paired (step w a s)"
  by (cases a)
     (simp_all add: open_image_file_dialog_def dropEvent_def load_paired ocr_task_paired
        cancel_all_paired deliver_paired close_paired)

lemma steps_paired: "paired s \<Longrightarrow> paired (steps w as s)"
  unfolding steps_def by (induction as arbitrary: s) (simp_all add: step_paired)

lemma init_paired: "paired (MainWindow_init w)"
  by (simp add: paired_def MainWindow_init_def)

subsection \<open>Starting a worker\<close>

lemma ocr_task_pool:
  "current_worker_runnable s \<noteq> None \<Longrightarrow>
   threadpool (run_ocr_correction_task w s) = threadpool s"
  by (auto simp: run_ocr_correction_task_def start_pool)

lemma explanation_task_pool:
  "current_worker_runnable s \<noteq> None \<Longrightarrow>
   threadpool (run_explanation_task w t s) = threadpool s"
  by (auto simp: run_explanation_task_def start_pool)

lemma comparison_returned_pool:
  "current_worker_runnable s \<noteq> None \<Longrightarrow>
   threadpool (comparison_dialog_returned w d r s) = threadpool s"
  by (cases r)
     (simp_all add: comparison_dialog_returned_def Let_def ocr_task_pool explanation_task_pool)

lemma deliver_pool [simp]: "threadpool (deliver x s) = threadpool s"
  by (cases x)
     (simp_all add: handle_worker_progress_def handle_worker_result_def
        show_comparison_dialog_def show_explanation_dialog_def handle_worker_error_def
        handle_worker_finished_def Let_def split: option.splits)

lemma close_pool:
  "current_worker_runnable s \<noteq> None \<Longrightarrow> threadpool (close_dialog w r s) = threadpool s"
  by (simp add: close_dialog_def explanation_dialog_returned_def error_box_returned_def
        no_text_box_returned_def comparison_returned_pool split: list.splits frame.splits)

lemma step_pool:
  "current_worker_runnable s \<noteq> None \<Longrightarrow> threadpool (step w a s) = threadpool s"
  by (cases a)
     (simp_all add: open_image_file_dialog_def dropEvent_def ocr_task_pool close_pool)




subsection \<open>When a new attempt can start\<close>

lemma deliver_slot:
  "current_worker_runnable (deliver x s) = None \<Longrightarrow> current_worker_runnable s \<noteq> None \<Longrightarrow>
   x = Finished"
  by (cases x)
     (auto simp: handle_worker_progress_def handle_worker_result_def
        show_comparison_dialog_def show_explanation_dialog_def handle_worker_error_def
        show_box_def update_status_message_def split: if_splits)

lemma ocr_task_slot:
  "current_worker_runnable s \<noteq> None \<Longrightarrow>
   current_worker_runnable (run_ocr_correction_task w s) = current_worker_runnable s"
  by (auto simp: run_ocr_correction_task_def start_slot)

lemma explanation_task_slot:
  "current_worker_runnable s \<noteq> None \<Longrightarrow>
   current_worker_runnable (run_explanation_task w t s) = current_worker_runnable s"
  by (auto simp: run_explanation_task_def start_slot)

lemma comparison_returned_slot:
  "current_worker_runnable s \<noteq> None \<Longrightarrow>
   current_worker_runnable (comparison_dialog_returned w d r s) = current_worker_runnable s"
  by (cases r)
     (simp_all add: comparison_dialog_returned_def Let_def ocr_task_slot explanation_task_slot)

lemma close_slot:
  "current_worker_runnable (close_dialog w r s) = None \<Longrightarrow>
   current_worker_runnable s \<noteq> None \<Longrightarrow> \<exists>fs. modal s = In_error_box # fs"
  by (auto simp: close_dialog_def explanation_dialog_returned_def no_text_box_returned_def
        comparison_returned_slot split: list.splits frame.splits)

lemma step_slot:
  "current_worker_runnable s \<noteq> None \<Longrightarrow> current_worker_runnable (step w a s) = None \<Longrightarrow>
   a = Deliver Finished \<or> a = Click_cancel \<or> (\<exists>p. a = Select_image p \<or> a = Drop_image p) \<or>
   (\<exists>r fs. a = Close r \<and> modal s = In_error_box # fs)"
  by (cases a) (auto simp: ocr_task_slot dest: deliver_slot close_slot split: if_splits)

text \<open>
  Claim C2, as stated: the window starts an attempt only after it has observed the
  Finished signal of the attempt before it. It does not after a cancel: the human
  starts the analysis of \<open>a.png\<close>, presses cancel, selects \<open>b.png\<close> and starts its
  analysis. No Finished signal is delivered anywhere in this trace, and the thread pool
  has been handed two workers; the first worker's stop flag is set, the second's is not.
\<close>

theorem second_attempt_starts_before_Finished_is_observed:
  "Deliver Finished \<notin> set cancel_then_restart \<and>
   map image_path (threadpool (steps scenario_world cancel_then_restart
      (MainWindow_init scenario_world))) = [Some (py ''a.png''), Some (py ''b.png'')] \<and>
   events (steps scenario_world cancel_then_restart (MainWindow_init scenario_world))
     = [True, False]"
  by (simp add: cancel_then_restart_def steps_def window_defs MainWindow_init_def
      scenario_world_def py_def Let_def)

text \<open>
  Claim C2, amended: the window starts an attempt only when its worker slot is empty.
  Handling a Finished signal empties the slot; so does a cancel (the cancel button, or
  loading a new image), which sets the worker's stop flag and empties the slot at once,
  without waiting for that worker's Finished signal. A slot that holds a worker is
  emptied by nothing else but the close of the error box.
\<close>

theorem attempt_starts_only_with_free_slot:
  "(threadpool (step w a s) \<noteq> threadpool s \<longrightarrow> current_worker_runnable s = None) \<and>
   current_worker_runnable (step w (Deliver Finished) s) = None \<and>
   (current_worker_runnable s = Some wk \<and> stop_current_worker_event s = Some ev \<longrightarrow>
      current_worker_runnable (snd (cancel_current_worker_if_running s)) = None \<and>
      events (snd (cancel_current_worker_if_running s)) = (events s)[ev := True] \<and>
      threadpool (snd (cancel_current_worker_if_running s)) = threadpool s) \<and>
   (current_worker_runnable s \<noteq> None \<and> current_worker_runnable (step w a s) = None \<longrightarrow>
      a = Deliver Finished \<or> a = Click_cancel \<or>
      (\<exists>p. a = Select_image p \<or> a = Drop_image p) \<or>
      (\<exists>r fs. a = Close r \<and> modal s = In_error_box # fs))"
proof -
  have 1: "threadpool (step w a s) \<noteq> threadpool s \<longrightarrow> current_worker_runnable s = None"
    using step_pool [of s w a] by blast
  have 2: "current_worker_runnable (step w (Deliver Finished) s) = None"
    by (simp add: handle_worker_finished_def Let_def)
  show ?thesis
    using 1 2 cancel_running [of s wk ev] cancel_pool [of s] step_slot [of s w a]
    by blast
qed

theorem attempt_starts_only_with_free_slot_witness:
  "threadpool (step scenario_world Click_analyze selected_window) \<noteq> threadpool selected_window \<and>
   current_worker_runnable selected_window = None \<and>
   current_worker_runnable busy_window = Some scenario_worker \<and>
   stop_current_worker_event busy_window = Some 0 \<and>
   current_worker_runnable (snd (cancel_current_worker_if_running busy_window)) = None \<and>
   events (snd (cancel_current_worker_if_running busy_window)) = [True] \<and>
   threadpool (snd (cancel_current_worker_if_running busy_window)) = [scenario_worker] \<and>
   current_worker_runnable busy_window \<noteq> None \<and>
   current_worker_runnable (step scenario_world Click_cancel busy_window) = None"
proof -
  have a: "threadpool (step scenario_world Click_analyze selected_window)
             \<noteq> threadpool selected_window"
    unfolding selected_window_facts by simp
  have b: "current_worker_runnable busy_window = Some scenario_worker \<and>
           stop_current_worker_event busy_window = Some 0"
    by (simp add: busy_window_slot busy_window_facts)
  have c: "current_worker_runnable busy_window \<noteq> None \<and>
           current_worker_runnable (step scenario_world Click_cancel busy_window) = None"
    unfolding busy_window_slot busy_window_facts by simp
  have d: "(events busy_window)[0 := True] = [True]" "threadpool busy_window = [scenario_worker]"
    by (simp_all add: busy_window_facts busy_window_pool)
  show ?thesis
    using a b c d
      attempt_starts_only_with_free_slot [of scenario_world Click_analyze selected_window]
      attempt_starts_only_with_free_slot [of scenario_world Click_cancel busy_window
        scenario_worker 0]
    by simp
qed

subsection \<open>Invalid input\<close>

lemma unreadable_run:
  "task_type self = py ''ocr_correct'' \<Longrightarrow> easyocr w \<Longrightarrow> GPT4All w \<Longrightarrow> cv2 w \<Longrightarrow>
   image_path self = Some p \<Longrightarrow> \<not> path_exists w p \<or> \<not> imread w p \<Longrightarrow>
   run w is_set self =
     [Progress (task_type self) 5, Error (task_type self) ValueError, Finished]"
  by (auto simp: run_def run_try_def run_ocr_correct_def)

text \<open>
  Claim C4, as stated: for an empty, missing or unreadable payload the failure is detected
  in the start call itself, no worker is spawned and no signal is emitted. Not so for
  an unreadable image: with \<open>doc.png\<close> selected in a world where no image can be loaded,
  the analyze button hands a worker to the thread pool, and that worker emits Progress 5,
  an Error and Finished.
\<close>

theorem unreadable_image_is_detected_by_the_worker:
  "threadpool (steps unreadable_world [Select_image (py ''doc.png''), Click_analyze]
      (MainWindow_init unreadable_world)) = [scenario_worker] \<and>
   run unreadable_world never_set scenario_worker =
     [Progress (py ''ocr_correct'') 5, Error (py ''ocr_correct'') ValueError, Finished]"
  by (simp add: steps_def window_defs MainWindow_init_def unreadable_world_def
      scenario_world_def scenario_worker_def py_def Let_def
      run_def run_try_def run_ocr_correct_def never_set_def)

text \<open>
  Claim C4, amended: when no image is selected (the path is \<open>None\<close> or empty)
  \<open>run_ocr_correction_task\<close> only sets the status line, and so does
  \<open>run_explanation_task\<close> for an empty text: no worker is spawned, so no signal is
  emitted. Whether the selected image can be read is not looked at in the start call:
  with a path selected, the modules present and the slot free, a worker is spawned
  whatever the file is, and a worker whose image does not exist or cannot be loaded emits
  Progress 5, then an Error, then Finished.
\<close>

theorem invalid_input_detection:
  "(\<not> truthy (current_image_path s) \<longrightarrow>
      run_ocr_correction_task w s = update_status_message Msg_no_image_selected s \<and>
      threadpool (run_ocr_correction_task w s) = threadpool s) \<and>
   run_explanation_task w [] s = update_status_message Msg_no_text_to_explain s \<and>
   threadpool (run_explanation_task w [] s) = threadpool s \<and>
   (truthy (current_image_path s) \<and> easyocr w \<and> GPT4All w \<and> cv2 w \<and>
    current_worker_runnable s = None \<longrightarrow>
      threadpool (run_ocr_correction_task w s) =
        threadpool s @ [\<lparr>task_type = py ''ocr_correct'', image_path = current_image_path s,
           text_input = None, model_name = llm_model_name s,
           stop_event = length (events s), ocr_reader = ocr_reader_instance s,
           llm_model = llm_model_instance s\<rparr>]) \<and>
   (task_type self = py ''ocr_correct'' \<and> easyocr w \<and> GPT4All w \<and> cv2 w \<and>
    image_path self = Some p \<and> (\<not> path_exists w p \<or> \<not> imread w p) \<longrightarrow>
      run w is_set self =
        [Progress (task_type self) 5, Error (task_type self) ValueError, Finished])"
proof -
  have 1: "\<not> truthy (current_image_path s) \<longrightarrow>
      run_ocr_correction_task w s = update_status_message Msg_no_image_selected s \<and>
      threadpool (run_ocr_correction_task w s) = threadpool s"
    by (simp add: run_ocr_correction_task_def)
  have 2: "run_explanation_task w [] s = update_status_message Msg_no_text_to_explain s \<and>
      threadpool (run_explanation_task w [] s) = threadpool s"
    by (simp add: run_explanation_task_def)
  have 3: "truthy (current_image_path s) \<and> easyocr w \<and> GPT4All w \<and> cv2 w \<and>
    current_worker_runnable s = None \<longrightarrow>
      threadpool (run_ocr_correction_task w s) =
        threadpool s @ [\<lparr>task_type = py ''ocr_correct'', image_path = current_image_path s,
           text_input = None, model_name = llm_model_name s,
           stop_event = length (events s), ocr_reader = ocr_reader_instance s,
           llm_model = llm_model_instance s\<rparr>]"
    by (simp add: run_ocr_correction_task_def start_pool)
  show ?thesis
    using 1 2 3 unreadable_run [of self w p is_set] by blast
qed

theorem invalid_input_detection_witness:
  "\<not> truthy (current_image_path (MainWindow_init unreadable_world)) \<and>
   threadpool (run_ocr_correction_task unreadable_world (MainWindow_init unreadable_world))
     = threadpool (MainWindow_init unreadable_world) \<and>
   truthy (current_image_path selected_window) \<and>
   current_worker_runnable selected_window = None \<and>
   length (threadpool (run_ocr_correction_task unreadable_world selected_window))
     = Suc (length (threadpool selected_window)) \<and>
   image_path scenario_worker = Some (py ''doc.png'') \<and>
   \<not> imread unreadable_world (py ''doc.png'') \<and>
   run unreadable_world never_set scenario_worker =
     [Progress (task_type scenario_worker) 5, Error (task_type scenario_worker) ValueError,
      Finished]"
proof -
  have a: "\<not> truthy (current_image_path (MainWindow_init unreadable_world))"
    by (simp add: MainWindow_init_def)
  have b: "truthy (current_image_path selected_window) \<and>
      easyocr unreadable_world \<and> GPT4All unreadable_world \<and> cv2 unreadable_world \<and>
      current_worker_runnable selected_window = None"
    by (simp add: selected_window_path selected_window_facts unreadable_world_facts py_def)
  have c: "task_type scenario_worker = py ''ocr_correct'' \<and>
      image_path scenario_worker = Some (py ''doc.png'') \<and>
      \<not> imread unreadable_world (py ''doc.png'')"
    by (simp add: scenario_worker_def unreadable_world_facts)
  show ?thesis
    using a b c
      invalid_input_detection [of "MainWindow_init unreadable_world" unreadable_world]
      invalid_input_detection [of selected_window unreadable_world scenario_worker
        "py ''doc.png''" never_set]
    by simp
qed

subsection \<open>The review dialog\<close>

lemma strip_nonempty: "strip t \<noteq> [] \<Longrightarrow> t \<noteq> []"
  by (auto simp: strip_def)

text \<open>
  Claim C7: when the review is resolved with Accept, the Explain task that the window
  then starts gets the text as the human left it in the editable box, not the corrected
  text the dialog was opened with. The window starts that task when the text is not blank,
  the language model is available and the worker slot is free; it starts nothing
  otherwise. Example: corrected text \<open>Hello wrold.\<close>, edited to \<open>Hello world.\<close>.
\<close>

theorem accept_starts_explain_with_edited_text:
  "final_accepted_text_for_explanation (comparison_dialog_returned w d (Accept edited) s)
     = edited \<and>
   threadpool (comparison_dialog_returned w d (Accept edited) s) =
     (if strip edited \<noteq> [] \<and> (llm_model_instance s \<or> GPT4All w) \<and>
         current_worker_runnable s = None
      then threadpool s @
        [\<lparr>task_type = py ''explain'', image_path = None, text_input = Some edited,
          model_name = llm_model_name s, stop_event = length (events s),
          ocr_reader = ocr_reader_instance s, llm_model = llm_model_instance s\<rparr>]
      else threadpool s)"
proof (cases "strip edited \<noteq> []")
  case True
  then have "edited \<noteq> []" by (rule strip_nonempty)
  with True show ?thesis
    by (auto simp: comparison_dialog_returned_def on_accept_def get_accepted_text_def
        run_explanation_task_def start_pool start_background_worker_def
        update_status_message_def show_box_def set_buttons_for_task_running_state_def Let_def)
next
  case False
  then show ?thesis
    by (simp add: comparison_dialog_returned_def on_accept_def get_accepted_text_def
        show_box_def Let_def)
qed

theorem accept_starts_explain_with_edited_text_witness:
  "refined_text_content (ComparisonDialog_init (Some (py ''doc.png'')) (py ''Hello wrold'')
      (py ''Hello wrold.'')) = py ''Hello wrold.'' \<and>
   strip (py ''Hello world.'') \<noteq> [] \<and>
   llm_model_instance (review_window\<lparr>modal := []\<rparr>) \<and>
   current_worker_runnable (review_window\<lparr>modal := []\<rparr>) = None \<and>
   map text_input (threadpool (comparison_dialog_returned typo_world
      (ComparisonDialog_init (Some (py ''doc.png'')) (py ''Hello wrold'') (py ''Hello wrold.''))
      (Accept (py ''Hello world.'')) (review_window\<lparr>modal := []\<rparr>)))
     = [None, Some (py ''Hello world.'')]"
proof -
  have a: "strip (py ''Hello world.'') \<noteq> []"
    by (simp add: strip_def isspace_def py_def)
  have b: "llm_model_instance (review_window\<lparr>modal := []\<rparr>) \<and>
      current_worker_runnable (review_window\<lparr>modal := []\<rparr>) = None"
    by (simp add: review_window_facts)
  have c: "refined_text_content (ComparisonDialog_init (Some (py ''doc.png''))
      (py ''Hello wrold'') (py ''Hello wrold.'')) = py ''Hello wrold.''"
    by (simp add: ComparisonDialog_init_def py_def Let_def)
  have d: "map text_input (threadpool (review_window\<lparr>modal := []\<rparr>)) = [None]"
    by (simp add: review_window_facts scenario_worker_def)
  show ?thesis
    using a b c d
      accept_starts_explain_with_edited_text [of typo_world
        "ComparisonDialog_init (Some (py ''doc.png'')) (py ''Hello wrold'') (py ''Hello wrold.'')"
        "py ''Hello world.''" "review_window\<lparr>modal := []\<rparr>"]
    by simp
qed

lemma blank_strip: "list_all isspace t \<Longrightarrow> strip t = []"
  by (simp add: strip_empty_iff list_all_iff)

lemma blank_accept_state:
  "strip edited = [] \<Longrightarrow>
   comparison_dialog_returned w d (Accept edited) s =
     s\<lparr>final_accepted_text_for_explanation := edited,
       message_boxes := message_boxes s @ [Warning_no_text],
       modal := In_no_text_box # modal s\<rparr>"
  by (simp add: comparison_dialog_returned_def on_accept_def get_accepted_text_def
      show_box_def Let_def)

text \<open>
  Claim C8: when the accepted text is empty or consists of whitespace only, the window
  starts no Explain task. It shows the warning box, and when the box is closed it
  clears the three stored texts, sets the progress bar to 0 and puts the buttons in their
  not-running state with the image still selected (status: task done). The worker slot is
  not touched on this path.
\<close>

theorem blank_accept_starts_no_explain:
  assumes "list_all isspace edited"
  shows
   "threadpool (comparison_dialog_returned w d (Accept edited) s) = threadpool s \<and>
    current_worker_runnable (comparison_dialog_returned w d (Accept edited) s)
      = current_worker_runnable s \<and>
    message_boxes (comparison_dialog_returned w d (Accept edited) s)
      = message_boxes s @ [Warning_no_text] \<and>
    modal (comparison_dialog_returned w d (Accept edited) s) = In_no_text_box # modal s \<and>
    (let s2 = close_dialog w r (comparison_dialog_returned w d (Accept edited) s)
     in threadpool s2 = threadpool s \<and>
        current_worker_runnable s2 = current_worker_runnable s \<and>
        modal s2 = modal s \<and>
        raw_ocr_text s2 = [] \<and>
        current_corrected_text s2 = [] \<and>
        final_accepted_text_for_explanation s2 = [] \<and>
        progress_bar s2 = 0 \<and>
        current_image_path s2 = current_image_path s \<and>
        status_label s2 = Msg_task_done \<and>
        select_image_button s2 \<and>
        cancel_task_button s2 \<and>
        analyze_button s2 = truthy (current_image_path s))"
proof -
  from assms have e: "strip edited = []" by (rule blank_strip)
  show ?thesis
    by (simp add: blank_accept_state [OF e] close_dialog_def no_text_box_returned_def
        reset_partial Let_def)
qed

theorem blank_accept_starts_no_explain_witness:
  "list_all isspace (py ''  '') \<and>
   threadpool (comparison_dialog_returned typo_world
      (ComparisonDialog_init (Some (py ''doc.png'')) (py ''Hello wrold'') (py ''Hello wrold.''))
      (Accept (py ''  '')) (review_window\<lparr>modal := []\<rparr>)) = [scenario_worker] \<and>
   message_boxes (comparison_dialog_returned typo_world
      (ComparisonDialog_init (Some (py ''doc.png'')) (py ''Hello wrold'') (py ''Hello wrold.''))
      (Accept (py ''  '')) (review_window\<lparr>modal := []\<rparr>)) = [Warning_no_text] \<and>
   current_corrected_text (close_dialog typo_world Cancel (comparison_dialog_returned typo_world
      (ComparisonDialog_init (Some (py ''doc.png'')) (py ''Hello wrold'') (py ''Hello wrold.''))
      (Accept (py ''  '')) (review_window\<lparr>modal := []\<rparr>))) = []"
proof -
  have a: "list_all isspace (py ''  '')"
    by (simp add: py_def isspace_def)
  have b: "threadpool (review_window\<lparr>modal := []\<rparr>) = [scenario_worker]"
     "message_boxes (review_window\<lparr>modal := []\<rparr>) = []"
    unfolding review_window_def typo_run
    by (simp_all add: steps_def window_defs MainWindow_init_def
      typo_world_def scenario_world_def scenario_worker_def py_def Let_def
      ComparisonDialog_init_def)
  show ?thesis
    using a b
      blank_accept_starts_no_explain [OF a, of typo_world
        "ComparisonDialog_init (Some (py ''doc.png'')) (py ''Hello wrold'') (py ''Hello wrold.'')"
        "review_window\<lparr>modal := []\<rparr>" Cancel]
    by (simp add: Let_def)
qed

subsection \<open>Loading a new image\<close>

text \<open>
  Claim C10, as stated: loading a new image cancels the running worker and clears the
  stored texts, so no result of an earlier task is carried into the next analysis. The
  cancel only sets a flag that the worker checks between its stages, and the worker's
  signals stay connected. In the trace below \<open>new.png\<close> is dropped while the worker for
  \<open>doc.png\<close> is inside the generation call (its three checks of the flag are behind
  it), and the analysis of \<open>new.png\<close> is started; the first worker's corrected text
  \<open>Hello wrold\<close> is then delivered, stored, and shown in the review dialog next to
  \<open>new.png\<close>.
\<close>

theorem late_result_of_cancelled_worker_reaches_next_analysis:
  "map image_path (threadpool (steps two_image_world late_result_trace
      (MainWindow_init two_image_world))) = [Some (py ''doc.png''), Some (py ''new.png'')] \<and>
   events (steps two_image_world late_result_trace (MainWindow_init two_image_world))
     = [True, False] \<and>
   current_image_path (steps two_image_world late_result_trace
      (MainWindow_init two_image_world)) = Some (py ''new.png'') \<and>
   current_corrected_text (steps two_image_world late_result_trace
      (MainWindow_init two_image_world)) = py ''Hello wrold'' \<and>
   modal (steps two_image_world late_result_trace (MainWindow_init two_image_world))
     = [In_comparison (ComparisonDialog_init (Some (py ''new.png'')) [] (py ''Hello wrold''))]"
  unfolding late_result_trace_def two_image_run
  by (simp add: steps_def window_defs MainWindow_init_def lower_def
      two_image_world_def scenario_world_def scenario_worker_def py_def Let_def
      ComparisonDialog_init_def suffix_def)

text \<open>
  Claim C10, amended: loading a new image first cancels the worker in the slot (it sets
  that worker's stop flag and empties the slot), then sets the three stored texts to
  the empty string and the progress bar to 0; the analysis then started from the new
  image gets the new path and finds the stored texts empty. (Every state the window
  reaches is \<open>paired\<close>: \<open>init_paired\<close>, \<open>steps_paired\<close>.)
\<close>

theorem load_image_cancels_and_clears:
  "(current_worker_runnable s = Some wk \<and> stop_current_worker_event s = Some ev \<longrightarrow>
      events (load_image_and_prepare_analysis p s) = (events s)[ev := True]) \<and>
   (paired s \<longrightarrow>
      current_worker_runnable (load_image_and_prepare_analysis p s) = None \<and>
      stop_current_worker_event (load_image_and_prepare_analysis p s) = None) \<and>
   threadpool (load_image_and_prepare_analysis p s) = threadpool s \<and>
   current_image_path (load_image_and_prepare_analysis p s) = Some p \<and>
   raw_ocr_text (load_image_and_prepare_analysis p s) = [] \<and>
   current_corrected_text (load_image_and_prepare_analysis p s) = [] \<and>
   final_accepted_text_for_explanation (load_image_and_prepare_analysis p s) = [] \<and>
   progress_bar (load_image_and_prepare_analysis p s) = 0 \<and>
   (p \<noteq> [] \<and> (ocr_reader_instance s \<or> easyocr w) \<and> (llm_model_instance s \<or> GPT4All w) \<and>
    cv2 w \<and> paired s \<longrightarrow>
      (let s2 = run_ocr_correction_task w (load_image_and_prepare_analysis p s)
       in threadpool s2 = threadpool s @
            [\<lparr>task_type = py ''ocr_correct'', image_path = Some p, text_input = None,
              model_name = llm_model_name s, stop_event = length (events s),
              ocr_reader = ocr_reader_instance s, llm_model = llm_model_instance s\<rparr>] \<and>
          current_image_path s2 = Some p \<and>
          raw_ocr_text s2 = [] \<and>
          current_corrected_text s2 = [] \<and>
          final_accepted_text_for_explanation s2 = [] \<and>
          progress_bar s2 = 0))"
proof -
  have 1: "current_worker_runnable s = Some wk \<and> stop_current_worker_event s = Some ev \<longrightarrow>
      events (load_image_and_prepare_analysis p s) = (events s)[ev := True]"
    using cancel_running [of s wk ev] by (simp add: load_state)
  have 2: "paired s \<longrightarrow>
      current_worker_runnable (load_image_and_prepare_analysis p s) = None \<and>
      stop_current_worker_event (load_image_and_prepare_analysis p s) = None"
    using cancel_idle [of s] by (simp add: load_state paired_def)
  have 3: "threadpool (load_image_and_prepare_analysis p s) = threadpool s \<and>
   current_image_path (load_image_and_prepare_analysis p s) = Some p \<and>
   raw_ocr_text (load_image_and_prepare_analysis p s) = [] \<and>
   current_corrected_text (load_image_and_prepare_analysis p s) = [] \<and>
   final_accepted_text_for_explanation (load_image_and_prepare_analysis p s) = [] \<and>
   progress_bar (load_image_and_prepare_analysis p s) = 0"
    by (simp add: load_state)
  have 4: "p \<noteq> [] \<and> (ocr_reader_instance s \<or> easyocr w) \<and> (llm_model_instance s \<or> GPT4All w) \<and>
    cv2 w \<and> paired s \<longrightarrow>
      (let s2 = run_ocr_correction_task w (load_image_and_prepare_analysis p s)
       in threadpool s2 = threadpool s @
            [\<lparr>task_type = py ''ocr_correct'', image_path = Some p, text_input = None,
              model_name = llm_model_name s, stop_event = length (events s),
              ocr_reader = ocr_reader_instance s, llm_model = llm_model_instance s\<rparr>] \<and>
          current_image_path s2 = Some p \<and>
          raw_ocr_text s2 = [] \<and>
          current_corrected_text s2 = [] \<and>
          final_accepted_text_for_explanation s2 = [] \<and>
          progress_bar s2 = 0)"
  proof
    assume h: "p \<noteq> [] \<and> (ocr_reader_instance s \<or> easyocr w) \<and>
      (llm_model_instance s \<or> GPT4All w) \<and> cv2 w \<and>
      paired s"
    then have free: "current_worker_runnable (load_image_and_prepare_analysis p s) = None"
      using 2 by simp
    have run: "run_ocr_correction_task w (load_image_and_prepare_analysis p s) =
       start_background_worker (py ''ocr_correct'') (Some p) None
         ((load_image_and_prepare_analysis p s)\<lparr>raw_ocr_text := [], current_corrected_text := []\<rparr>)"
      using h 3 by (auto simp: run_ocr_correction_task_def load_state)
    have free': "current_worker_runnable
        ((load_image_and_prepare_analysis p s)\<lparr>raw_ocr_text := [], current_corrected_text := []\<rparr>)
        = None"
      using free by simp
    show "let s2 = run_ocr_correction_task w (load_image_and_prepare_analysis p s)
       in threadpool s2 = threadpool s @
            [\<lparr>task_type = py ''ocr_correct'', image_path = Some p, text_input = None,
              model_name = llm_model_name s, stop_event = length (events s),
              ocr_reader = ocr_reader_instance s, llm_model = llm_model_instance s\<rparr>] \<and>
          current_image_path s2 = Some p \<and>
          raw_ocr_text s2 = [] \<and>
          current_corrected_text s2 = [] \<and>
          final_accepted_text_for_explanation s2 = [] \<and>
          progress_bar s2 = 0"
      unfolding Let_def run
      using free' 3 by (simp add: start_pool start_progress load_state)
  qed
  from 1 2 3 4 show ?thesis by (simp only: simp_thms)
qed

theorem load_image_cancels_and_clears_witness:
  "current_worker_runnable stale_window = Some scenario_worker \<and>
   stop_current_worker_event stale_window = Some 0 \<and>
   raw_ocr_text stale_window = py ''Hello wrold'' \<and>
   events (load_image_and_prepare_analysis (py ''new.png'') stale_window) = [True] \<and>
   current_worker_runnable (load_image_and_prepare_analysis (py ''new.png'') stale_window)
     = None \<and>
   raw_ocr_text (load_image_and_prepare_analysis (py ''new.png'') stale_window) = [] \<and>
   progress_bar (load_image_and_prepare_analysis (py ''new.png'') stale_window) = 0 \<and>
   map image_path (threadpool (run_ocr_correction_task two_image_world
      (load_image_and_prepare_analysis (py ''new.png'') stale_window)))
     = [Some (py ''doc.png''), Some (py ''new.png'')] \<and>
   raw_ocr_text (run_ocr_correction_task two_image_world
      (load_image_and_prepare_analysis (py ''new.png'') stale_window)) = []"
proof -
  have a: "current_worker_runnable stale_window = Some scenario_worker \<and>
      stop_current_worker_event stale_window = Some 0"
    by (simp add: stale_window_facts)
  have b: "paired stale_window"
    by (simp add: paired_def stale_window_facts)
  have c: "py ''new.png'' \<noteq> [] \<and> cv2 two_image_world"
    by (simp add: py_def two_image_world_def scenario_world_def)
  have d: "(events stale_window)[0 := True] = [True]"
      "map image_path (threadpool stale_window) = [Some (py ''doc.png'')]"
    by (simp_all add: stale_window_facts scenario_worker_def)
  show ?thesis
    using a b c d stale_window_facts(5,7,8)
      load_image_cancels_and_clears [of stale_window scenario_worker 0 "py ''new.png''"
        two_image_world]
    by (simp add: Let_def)
qed

end
